theory Spec2Isabelle
  imports Main "HOL-Library.Sublist"
begin

section \<open>The Python execution tool of avilink-ai-agent\<close>

text \<open>
  A shallow embedding of \<^verbatim>\<open>app/lib/tools/python-execution-tool.ts\<close> and of the parts of
  \<^verbatim>\<open>app/lib/tools/base-tool.ts\<close> it calls. JavaScript strings are modelled as \<^typ>\<open>string\<close>
  (lists of 8-bit characters), \<^verbatim>\<open>null\<close> and \<^verbatim>\<open>undefined\<close> as \<^const>\<open>None\<close>, numbers as
  integers (the timeout in whole seconds, times in milliseconds), and everything the tool
  reads from its environment (clock, file system, child processes, database) as explicit
  inputs. An asynchronous call ends with a value, with a thrown \<^verbatim>\<open>Error\<close>, or never; what
  it does to the outside is returned as a list of effects.
\<close>

subsection \<open>JavaScript string primitives\<close>

text \<open>
  The white space of \<^verbatim>\<open>String.prototype.trim\<close> and of the regular-expression class
  \<^verbatim>\<open>\s\<close>, restricted to 8-bit characters: TAB, LF, VT, FF, CR, SPACE and NBSP.
\<close>

definition is_space :: "char \<Rightarrow> bool" where
  "is_space c \<longleftrightarrow>
     c = CHR 0x09 \<or> c = CHR 0x0A \<or> c = CHR 0x0B \<or> c = CHR 0x0C \<or> c = CHR 0x0D \<or>
     c = CHR 0x20 \<or> c = CHR 0xA0"

definition trim :: "string \<Rightarrow> string" where
  "trim s = rev (dropWhile is_space (rev (dropWhile is_space s)))"

text \<open>
  \<^verbatim>\<open>haystack.indexOf(needle)\<close>: the least position at which the needle starts. The
  JavaScript result \<^verbatim>\<open>-1\<close> is \<^const>\<open>None\<close> here.
\<close>

fun indexOf :: "string \<Rightarrow> string \<Rightarrow> nat option" where
  "indexOf [] m = (if m = [] then Some 0 else None)"
| "indexOf (c # cs) m =
     (if prefix m (c # cs) then Some 0 else map_option Suc (indexOf cs m))"

text \<open>
  \<^verbatim>\<open>s.substring(a, b)\<close> for non-negative arguments: both are clamped to the length of
  the string, and they are swapped when the first exceeds the second.
\<close>

definition substring :: "string \<Rightarrow> nat \<Rightarrow> nat \<Rightarrow> string" where
  "substring s a b =
     (let a' = min a (length s); b' = min b (length s);
          from = min a' b'; to = max a' b'
      in take (to - from) (drop from s))"

subsection \<open>The extraction routines\<close>

definition OUTPUT_START :: string where "OUTPUT_START = ''AVILINK_OUTPUT_START''"
definition OUTPUT_END :: string where "OUTPUT_END = ''AVILINK_OUTPUT_END''"
definition ERROR_START :: string where "ERROR_START = ''AVILINK_ERROR_START''"
definition ERROR_END :: string where "ERROR_END = ''AVILINK_ERROR_END''"

definition parseOutput :: "string \<Rightarrow> string" where
  "parseOutput output =
     (let startMarker = OUTPUT_START; endMarker = OUTPUT_END;
          startIndex = indexOf output startMarker;
          endIndex = indexOf output endMarker
      in case (startIndex, endIndex) of
           (Some i, Some j) \<Rightarrow> trim (substring output (i + length startMarker) j)
         | _ \<Rightarrow> trim output)"

text \<open>
  \<^verbatim>\<open>parseError\<close> returns \<^verbatim>\<open>string | null\<close>. With both sentinels present the result is
  the trimmed substring, which may be the empty string; otherwise
  \<^verbatim>\<open>error.trim() || null\<close> turns the empty string into \<^verbatim>\<open>null\<close>.
\<close>

definition parseError :: "string \<Rightarrow> string option" where
  "parseError err =
     (let startMarker = ERROR_START; endMarker = ERROR_END;
          startIndex = indexOf err startMarker;
          endIndex = indexOf err endMarker
      in case (startIndex, endIndex) of
           (Some i, Some j) \<Rightarrow> Some (trim (substring err (i + length startMarker) j))
         | _ \<Rightarrow> (if trim err = [] then None else Some (trim err)))"

subsection \<open>Results\<close>

datatype status = Success | Error | Timeout

text \<open>
  The interface \<^verbatim>\<open>PythonExecutionResult\<close>; its field \<^verbatim>\<open>output\<close> is \<open>output_text\<close> here, since
  \<open>output\<close> is a keyword of the theory language.
\<close>

record PythonExecutionResult =
  code :: string
  output_text :: string
  error :: "string option"
  execution_time :: int
  status :: status

subsection \<open>The Process Runner\<close>

text \<open>
  \<^verbatim>\<open>runPythonProcess\<close> registers callbacks and resolves its promise from the first callback
  that calls \<^verbatim>\<open>resolve\<close>. The model runs the callbacks over the list of events in the order
  the event loop delivers them: chunks written by the child on its standard streams, the
  deadline timer becoming due, the \<^verbatim>\<open>'close'\<close> event with the exit code (\<^verbatim>\<open>null\<close> when the
  child was ended by a signal) and the \<^verbatim>\<open>'error'\<close> event with its message.
\<close>

datatype proc_event =
    StdoutData string
  | StderrData string
  | TimerFired
  | Close "int option"
  | ProcError string

text \<open>
  The closure variables \<^verbatim>\<open>output\<close>, \<^verbatim>\<open>error\<close> and \<^verbatim>\<open>timedOut\<close>, whether \<^verbatim>\<open>timeoutId\<close> is
  still pending, the number of \<^verbatim>\<open>SIGKILL\<close>s sent, and the value the promise was resolved with.
\<close>

record runner_state =
  buf_output :: string
  buf_error :: string
  timedOut :: bool
  timer_pending :: bool
  kills :: nat
  resolved :: "PythonExecutionResult option"

definition runner_init :: runner_state where
  "runner_init =
     \<lparr>buf_output = [], buf_error = [], timedOut = False, timer_pending = True, kills = 0,
      resolved = None\<rparr>"

text \<open>Resolving a promise a second time has no effect.\<close>

definition resolve :: "PythonExecutionResult \<Rightarrow> runner_state \<Rightarrow> runner_state" where
  "resolve r st = (case resolved st of None \<Rightarrow> st\<lparr>resolved := Some r\<rparr> | Some _ \<Rightarrow> st)"

definition clearTimeout :: "runner_state \<Rightarrow> runner_state" where
  "clearTimeout st = st\<lparr>timer_pending := False\<rparr>"

text \<open>The three objects the callbacks pass to \<^verbatim>\<open>resolve\<close>.\<close>

definition timeout_result :: "int \<Rightarrow> PythonExecutionResult" where
  "timeout_result timeout =
     \<lparr>code = [], output_text = [], error = Some ''Execution timed out'',
      execution_time = timeout * 1000, status = Timeout\<rparr>"

text \<open>
  In the result of a normal close, \<^verbatim>\<open>cleanError || null\<close> turns an empty error text into
  \<^verbatim>\<open>null\<close>, and \<^verbatim>\<open>!cleanError\<close> holds for \<^verbatim>\<open>null\<close> and for the empty text.
\<close>

definition close_result :: "string \<Rightarrow> string \<Rightarrow> int option \<Rightarrow> PythonExecutionResult" where
  "close_result out err exit_code =
     (let cleanOutput = parseOutput out;
          cleanError = parseError err
      in \<lparr>code = [], output_text = cleanOutput,
          error = (if cleanError = Some [] then None else cleanError),
          execution_time = 0,
          status = (if exit_code = Some 0 \<and> (cleanError = None \<or> cleanError = Some [])
                    then Success else Error)\<rparr>)"

definition error_result :: "string \<Rightarrow> PythonExecutionResult" where
  "error_result message =
     \<lparr>code = [], output_text = [], error = Some (''Process error: '' @ message),
      execution_time = 0, status = Error\<rparr>"

definition on_close :: "int \<Rightarrow> int option \<Rightarrow> runner_state \<Rightarrow> runner_state" where
  "on_close timeout exit_code st0 =
     (let st = clearTimeout st0 in
      if timedOut st then resolve (timeout_result timeout) st
      else resolve (close_result (buf_output st) (buf_error st) exit_code) st)"

definition on_error :: "string \<Rightarrow> runner_state \<Rightarrow> runner_state" where
  "on_error message st0 = (let st = clearTimeout st0 in resolve (error_result message) st)"

fun on_event :: "int \<Rightarrow> bool \<Rightarrow> runner_state \<Rightarrow> proc_event \<Rightarrow> runner_state" where
  "on_event timeout captureOutput st (StdoutData d) =
     (if captureOutput then st\<lparr>buf_output := buf_output st @ d\<rparr> else st)"
| "on_event timeout captureOutput st (StderrData d) =
     (if captureOutput then st\<lparr>buf_error := buf_error st @ d\<rparr> else st)"
| "on_event timeout captureOutput st TimerFired =
     (if timer_pending st
      then st\<lparr>timedOut := True, timer_pending := False, kills := Suc (kills st)\<rparr>
      else st)"
| "on_event timeout captureOutput st (Close exit_code) = on_close timeout exit_code st"
| "on_event timeout captureOutput st (ProcError message) = on_error message st"

definition run_events :: "int \<Rightarrow> bool \<Rightarrow> proc_event list \<Rightarrow> runner_state" where
  "run_events timeout captureOutput evs = foldl (on_event timeout captureOutput) runner_init evs"

text \<open>
  The value of the promise; \<^const>\<open>None\<close> when no event resolves it, in which case the
  caller waits forever.
\<close>

definition runPythonProcess :: "proc_event list \<Rightarrow> int \<Rightarrow> bool \<Rightarrow> PythonExecutionResult option" where
  "runPythonProcess evs timeout captureOutput = resolved (run_events timeout captureOutput evs)"

subsection \<open>The Safety Pre-Filter\<close>

text \<open>
  The twelve regular expressions of \<^verbatim>\<open>containsUnsafeOperations\<close> are sequences of literal
  text, \<^verbatim>\<open>\s+\<close> and \<^verbatim>\<open>\s*\<close>. \<^verbatim>\<open>pattern.test(code)\<close> searches for a match starting at any
  position of the text.
\<close>

datatype atom = Lit string | SpacePlus | SpaceStar

fun match_here :: "atom list \<Rightarrow> string \<Rightarrow> bool" where
  "match_here [] s = True"
| "match_here (Lit l # r) s = (if prefix l s then match_here r (drop (length l) s) else False)"
| "match_here (SpacePlus # r) [] = False"
| "match_here (SpacePlus # r) (c # cs) =
     (if is_space c then match_here (SpaceStar # r) cs else False)"
| "match_here (SpaceStar # r) [] = match_here r []"
| "match_here (SpaceStar # r) (c # cs) =
     (if is_space c \<and> match_here (SpaceStar # r) cs then True else match_here r (c # cs))"

fun regex_test :: "atom list \<Rightarrow> string \<Rightarrow> bool" where
  "regex_test p [] = match_here p []"
| "regex_test p (c # cs) = (if match_here p (c # cs) then True else regex_test p cs)"

text \<open>
  What the expressions mean, independently of how a match is searched: the texts a
  sequence of atoms matches. \<^verbatim>\<open>\s+\<close> is one white-space character followed by \<^verbatim>\<open>\s*\<close>.
\<close>

inductive matches :: "atom list \<Rightarrow> string \<Rightarrow> bool" where
  matches_Nil: "matches [] []"
| matches_Lit: "matches r m \<Longrightarrow> matches (Lit l # r) (l @ m)"
| matches_Plus:
    "is_space c \<Longrightarrow> matches (SpaceStar # r) m \<Longrightarrow> matches (SpacePlus # r) (c # m)"
| matches_Star_skip: "matches r m \<Longrightarrow> matches (SpaceStar # r) m"
| matches_Star_step:
    "is_space c \<Longrightarrow> matches (SpaceStar # r) m \<Longrightarrow> matches (SpaceStar # r) (c # m)"

definition unsafePatterns :: "atom list list" where
  "unsafePatterns =
     [[Lit ''import'', SpacePlus, Lit ''os''],
      [Lit ''import'', SpacePlus, Lit ''subprocess''],
      [Lit ''import'', SpacePlus, Lit ''sys''],
      [Lit ''from'', SpacePlus, Lit ''os''],
      [Lit ''from'', SpacePlus, Lit ''subprocess''],
      [Lit ''exec'', SpaceStar, Lit ''(''],
      [Lit ''eval'', SpaceStar, Lit ''(''],
      [Lit ''__import__''],
      [Lit ''open'', SpaceStar, Lit ''(''],
      [Lit ''file'', SpaceStar, Lit ''(''],
      [Lit ''input'', SpaceStar, Lit ''(''],
      [Lit ''raw_input'', SpaceStar, Lit ''('']]"

definition containsUnsafeOperations :: "string \<Rightarrow> bool" where
  "containsUnsafeOperations src = list_ex (\<lambda>pattern. regex_test pattern src) unsafePatterns"

subsection \<open>The Output Framer\<close>

text \<open>\<^verbatim>\<open>s.split('\n')\<close> and \<^verbatim>\<open>lines.join('\n')\<close>.\<close>

fun split_nl :: "string \<Rightarrow> string list" where
  "split_nl [] = [[]]"
| "split_nl (c # cs) =
     (if c = CHR 0x0A then [] # split_nl cs
      else (case split_nl cs of [] \<Rightarrow> [[c]] | l # ls \<Rightarrow> (c # l) # ls))"

fun join_nl :: "string list \<Rightarrow> string" where
  "join_nl [] = []"
| "join_nl [l] = l"
| "join_nl (l # ls) = l @ CHR 0x0A # join_nl ls"

definition wrapper_head :: "string list" where
  \<open>wrapper_head =
     ['''',
      ''import sys'',
      ''import traceback'',
      ''from io import StringIO'',
      ''import contextlib'',
      '''',
      ''# Redirect stdout'',
      ''old_stdout = sys.stdout'',
      ''sys.stdout = StringIO()'',
      '''',
      ''try:'',
      ''    # User code starts here'']\<close>

definition wrapper_tail :: "string list" where
  \<open>wrapper_tail =
     [''    '',
      ''    # Capture output'',
      ''    output = sys.stdout.getvalue()'',
      ''    print("AVILINK_OUTPUT_START")'',
      ''    print(output)'',
      ''    print("AVILINK_OUTPUT_END")'',
      ''    '',
      ''except Exception as e:'',
      ''    print("AVILINK_ERROR_START")'',
      ''    print(f"Error: {str(e)}")'',
      ''    print("AVILINK_ERROR_END")'',
      ''    traceback.print_exc()'',
      ''finally:'',
      ''    sys.stdout = old_stdout'',
      '''']\<close>

definition wrapCodeWithSafety :: "string \<Rightarrow> string" where
  "wrapCodeWithSafety src =
     join_nl wrapper_head @ [CHR 0x0A] @
     join_nl (map (\<lambda>line. ''    '' @ line) (split_nl src)) @ [CHR 0x0A] @
     join_nl wrapper_tail"

subsection \<open>What the wrapped script does when the interpreter runs it\<close>

text \<open>
  The wrapper is Python text; what the child process writes is fixed by the statements of
  that text. The state of the interpreter that matters to them: whether \<^verbatim>\<open>sys.stdout\<close> is
  the \<^verbatim>\<open>StringIO\<close> buffer or the real standard output, the contents of the buffer, and what
  has reached the real standard output and standard error of the process.
\<close>

record py_state =
  redirected :: bool
  buffer :: string
  real_stdout :: string
  real_stderr :: string

definition py_init :: py_state where
  "py_init = \<lparr>redirected = False, buffer = [], real_stdout = [], real_stderr = []\<rparr>"

text \<open>\<^verbatim>\<open>print(s)\<close> writes \<open>s\<close> and a newline to whatever \<^verbatim>\<open>sys.stdout\<close> is at the call.\<close>

definition py_print :: "string \<Rightarrow> py_state \<Rightarrow> py_state" where
  "py_print s st =
     (if redirected st then st\<lparr>buffer := buffer st @ s @ [CHR 0x0A]\<rparr>
      else st\<lparr>real_stdout := real_stdout st @ s @ [CHR 0x0A]\<rparr>)"

text \<open>
  User code, as far as the wrapper can observe it: a sequence of \<^verbatim>\<open>print\<close> calls, ended
  normally or by raising an \<^verbatim>\<open>Exception\<close> with a message; the second argument of
  \<open>Raise\<close> is the text \<^verbatim>\<open>traceback.print_exc()\<close> writes for it.
\<close>

datatype py_stmt = Print string | Raise string string

fun exec_user :: "py_stmt list \<Rightarrow> py_state \<Rightarrow> py_state \<times> (string \<times> string) option" where
  "exec_user [] st = (st, None)"
| "exec_user (Print s # rest) st = exec_user rest (py_print s st)"
| "exec_user (Raise message trace # rest) st = (st, Some (message, trace))"

definition run_wrapped :: "py_stmt list \<Rightarrow> py_state" where
  "run_wrapped user =
     (let st1 = py_init\<lparr>redirected := True\<rparr>;
          (st2, raised) = exec_user user st1;
          st3 = (case raised of
                   None \<Rightarrow>
                     (let out = buffer st2
                      in py_print OUTPUT_END (py_print out (py_print OUTPUT_START st2)))
                 | Some (message, trace) \<Rightarrow>
                     (let st = py_print ERROR_END
                                 (py_print (''Error: '' @ message) (py_print ERROR_START st2))
                      in st\<lparr>real_stderr := real_stderr st @ trace\<rparr>))
      in st3\<lparr>redirected := False\<rparr>)"

text \<open>
  The events the runner sees from such a process: the text on each real stream, if any, and
  the exit with code zero (the wrapper catches the exception).
\<close>

definition wrapped_script_events :: "py_stmt list \<Rightarrow> proc_event list" where
  "wrapped_script_events user =
     (let st = run_wrapped user in
      (if real_stdout st = [] then [] else [StdoutData (real_stdout st)]) @
      (if real_stderr st = [] then [] else [StderrData (real_stderr st)]) @
      [Close (Some 0)])"

subsection \<open>Numbers in template strings\<close>

definition digit_char :: "nat \<Rightarrow> char" where
  "digit_char d = ''0123456789'' ! d"

fun digits :: "nat \<Rightarrow> string" where
  "digits n = (if n < 10 then [digit_char n] else digits (n div 10) @ [digit_char (n mod 10)])"

declare digits.simps [simp del]

definition show_int :: "int \<Rightarrow> string" where
  "show_int i = (if i < 0 then CHR ''-'' # digits (nat (- i)) else digits (nat i))"

text \<open>An exit code in a template string: \<^verbatim>\<open>null\<close> when the process was ended by a signal.\<close>

definition show_exit_code :: "int option \<Rightarrow> string" where
  "show_exit_code c = (case c of None \<Rightarrow> ''null'' | Some i \<Rightarrow> show_int i)"

subsection \<open>The environment of one call, and its effects\<close>

text \<open>
  What \<^verbatim>\<open>ensureTempDir\<close> can see of \<^verbatim>\<open>mkdir -p\<close>. It listens to \<^verbatim>\<open>'close'\<close> only: either that
  event arrives with the exit code (\<^verbatim>\<open>null\<close> after a signal), or it never does, because
  the process never exits or could not be spawned. In the second case its \<^verbatim>\<open>'error'\<close> event
  has no listener and is thrown as an uncaught exception outside the promise, which is
  never settled.
\<close>

datatype mkdir_outcome = MkdirClose "int option" | MkdirNoClose

text \<open>
  How a promise of the database client ends: it resolves, it rejects with an error, or it
  is never settled (a connection that hangs).
\<close>

datatype call_outcome = Resolves | Rejects string | NeverSettles

text \<open>
  Everything one call of \<^verbatim>\<open>execute\<close> reads from outside: the four readings of
  \<^verbatim>\<open>Date.now()\<close> (for the file name, around the runner, and the two of
  \<^verbatim>\<open>measureExecutionTime\<close>), what \<^verbatim>\<open>mkdir -p\<close> does, whether \<^verbatim>\<open>writeFile\<close> and \<^verbatim>\<open>unlink\<close>
  (calls on the local file system, which are taken to settle) fail and with which message,
  the events of the interpreter process, and how the two database calls end.
\<close>

record environment =
  now_name :: int
  mkdir_exit :: mkdir_outcome
  writeFile_error :: "string option"
  proc_events :: "proc_event list"
  now_start :: int
  now_end :: int
  unlink_error :: "string option"
  upsert_outcome :: call_outcome
  create_outcome :: call_outcome
  now_measure_start :: int
  now_measure_end :: int

text \<open>What a call does to the outside, in order.\<close>

datatype effect =
    SpawnMkdir string
  | WriteFile string string
  | SpawnPython string
  | Unlink string
  | UpsertUser
  | CreateCodeExecution string string "string option" status int
  | ConsoleError string

text \<open>
  How an asynchronous call ends: with a value, with a thrown \<^verbatim>\<open>Error\<close> (its message), or
  never, when a promise it awaits is never settled.
\<close>

datatype 'a outcome = Returned 'a | Thrown string | Pending

subsection \<open>\<^verbatim>\<open>executePythonCode\<close>\<close>

definition tempDir :: string where
  "tempDir = ''/tmp/avilink-python''"

definition tempFile :: "int \<Rightarrow> string" where
  "tempFile now = tempDir @ ''/'' @ ''script_'' @ show_int now @ ''.py''"

text \<open>
  The body of the \<^verbatim>\<open>try\<close> block: \<^verbatim>\<open>ensureTempDir\<close> stays pending when \<^verbatim>\<open>mkdir\<close> delivers no
  \<^verbatim>\<open>'close'\<close> event, resolves when it closes with code zero and rejects when it closes with
  another code; \<^verbatim>\<open>writeFile\<close> may reject; the runner's promise resolves or stays pending.
  The runner is given the path of the script; what the interpreter then does is the list
  of events of the environment.
\<close>

definition try_block ::
  "environment \<Rightarrow> string \<Rightarrow> int \<Rightarrow> bool \<Rightarrow> PythonExecutionResult outcome \<times> effect list" where
  "try_block env src timeout captureOutput =
     (case mkdir_exit env of
        MkdirNoClose \<Rightarrow> (Pending, [SpawnMkdir tempDir])
      | MkdirClose exit_code \<Rightarrow>
          if exit_code \<noteq> Some 0 then
            (Thrown (''Failed to create directory: '' @ show_exit_code exit_code),
             [SpawnMkdir tempDir])
          else
            let wrappedCode = wrapCodeWithSafety src in
            case writeFile_error env of
              Some message \<Rightarrow>
                (Thrown message,
                 [SpawnMkdir tempDir, WriteFile (tempFile (now_name env)) wrappedCode])
            | None \<Rightarrow>
                (case runPythonProcess (proc_events env) timeout captureOutput of
                   None \<Rightarrow>
                     (Pending,
                      [SpawnMkdir tempDir, WriteFile (tempFile (now_name env)) wrappedCode,
                       SpawnPython (tempFile (now_name env))])
                 | Some result \<Rightarrow>
                     (Returned
                        (result\<lparr>code := src, execution_time := now_end env - now_start env\<rparr>),
                      [SpawnMkdir tempDir, WriteFile (tempFile (now_name env)) wrappedCode,
                       SpawnPython (tempFile (now_name env))])))"

text \<open>The \<^verbatim>\<open>catch\<close> block turns a thrown error into an error result.\<close>

definition catch_block :: "string \<Rightarrow> string \<Rightarrow> PythonExecutionResult" where
  "catch_block src message =
     \<lparr>code = src, output_text = [], error = Some message, execution_time = 0, status = Error\<rparr>"

text \<open>The \<^verbatim>\<open>finally\<close> block: \<^verbatim>\<open>unlink\<close>, whose failure is only printed.\<close>

definition finally_block :: "environment \<Rightarrow> effect list" where
  "finally_block env =
     Unlink (tempFile (now_name env)) #
     (case unlink_error env of
        None \<Rightarrow> []
      | Some message \<Rightarrow> [ConsoleError (''Cleanup error: '' @ message)])"

definition executePythonCode ::
  "environment \<Rightarrow> string \<Rightarrow> int \<Rightarrow> bool \<Rightarrow> PythonExecutionResult outcome \<times> effect list" where
  "executePythonCode env src timeout captureOutput =
     (case try_block env src timeout captureOutput of
        (Returned result, effs) \<Rightarrow> (Returned result, effs @ finally_block env)
      | (Thrown message, effs) \<Rightarrow> (Returned (catch_block src message), effs @ finally_block env)
      | (Pending, effs) \<Rightarrow> (Pending, effs))"

subsection \<open>\<^verbatim>\<open>logExecution\<close>\<close>

text \<open>
  The two database calls of the \<^verbatim>\<open>try\<close> block, each awaited: either may reject, and
  either may never settle, in which case the block never ends.
\<close>

definition log_try_block ::
  "environment \<Rightarrow> string \<Rightarrow> PythonExecutionResult \<Rightarrow> unit outcome \<times> effect list" where
  "log_try_block env src result =
     (case upsert_outcome env of
        Rejects message \<Rightarrow> (Thrown message, [UpsertUser])
      | NeverSettles \<Rightarrow> (Pending, [UpsertUser])
      | Resolves \<Rightarrow>
          (case create_outcome env of
             Rejects message \<Rightarrow>
               (Thrown message,
                [UpsertUser,
                 CreateCodeExecution src (output_text result) (error result) (status result)
                   (execution_time result)])
           | NeverSettles \<Rightarrow>
               (Pending,
                [UpsertUser,
                 CreateCodeExecution src (output_text result) (error result) (status result)
                   (execution_time result)])
           | Resolves \<Rightarrow>
               (Returned (),
                [UpsertUser,
                 CreateCodeExecution src (output_text result) (error result) (status result)
                   (execution_time result)])))"

text \<open>
  The \<^verbatim>\<open>catch\<close> block of the logger prints a thrown error and lets the call end normally;
  a block that never ends is not caught.
\<close>

definition logExecution ::
  "environment \<Rightarrow> string \<Rightarrow> PythonExecutionResult \<Rightarrow> unit outcome \<times> effect list" where
  "logExecution env src result =
     (case log_try_block env src result of
        (Thrown message, effs) \<Rightarrow>
          (Returned (), effs @ [ConsoleError (''Failed to log code execution: '' @ message)])
      | other \<Rightarrow> other)"

subsection \<open>\<^verbatim>\<open>validateParameters\<close> and \<^verbatim>\<open>execute\<close>\<close>

text \<open>
  The parameter object, with the types the tool declares for it; \<^const>\<open>None\<close> is a property
  that is absent or \<^verbatim>\<open>undefined\<close>.
\<close>

record parameters =
  p_code :: "string option"
  p_timeout :: "int option"
  p_capture_output :: "bool option"

definition defined_param :: "parameters \<Rightarrow> string \<Rightarrow> bool" where
  "defined_param ps name =
     (if name = ''code'' then p_code ps \<noteq> None
      else if name = ''timeout'' then p_timeout ps \<noteq> None
      else if name = ''capture_output'' then p_capture_output ps \<noteq> None
      else False)"

record validation =
  isValid :: bool
  missingParams :: "string list option"

definition validateParameters :: "parameters \<Rightarrow> string list \<Rightarrow> validation" where
  "validateParameters ps required =
     (let missing = filter (\<lambda>param. \<not> defined_param ps param) required
      in \<lparr>isValid = (length missing = 0),
          missingParams = (if length missing > 0 then Some missing else None)\<rparr>)"

text \<open>\<^verbatim>\<open>names?.join(', ')\<close> inside a template string.\<close>

fun join_comma :: "string list \<Rightarrow> string" where
  "join_comma [] = []"
| "join_comma [x] = x"
| "join_comma (x # xs) = x @ '', '' @ join_comma xs"

text \<open>
  The object \<^verbatim>\<open>execute\<close> returns; its \<^verbatim>\<open>error\<close> property is \<open>error_message\<close> here, the
  name \<open>error\<close> being taken by the field of the execution result.
\<close>

record tool_result =
  success :: bool
  data :: PythonExecutionResult
  error_message :: "string option"
  executionTime :: int

text \<open>
  \<^verbatim>\<open>execute\<close>, with \<^verbatim>\<open>measureExecutionTime\<close> unfolded: an error thrown by the operation
  passes through it, and the time is the difference of its two clock readings. After a
  successful validation the source text is defined; the case where it is not is written
  out only because \<^const>\<open>p_code\<close> is an option.
\<close>

definition execute :: "environment \<Rightarrow> parameters \<Rightarrow> tool_result outcome \<times> effect list" where
  "execute env ps =
     (let validation = validateParameters ps [''code''] in
      if \<not> isValid validation then
        (Thrown (''Missing required parameters: '' @
                 (case missingParams validation of
                    None \<Rightarrow> ''undefined'' | Some names \<Rightarrow> join_comma names)), [])
      else
        case p_code ps of
          None \<Rightarrow> (Thrown ''Missing required parameters: code'', [])
        | Some src \<Rightarrow>
            let timeout = (case p_timeout ps of None \<Rightarrow> 30 | Some t \<Rightarrow> t);
                capture_output = (case p_capture_output ps of None \<Rightarrow> True | Some b \<Rightarrow> b)
            in
            if containsUnsafeOperations src then
              (Thrown ''Code contains potentially unsafe operations'', [])
            else
              case executePythonCode env src timeout capture_output of
                (Thrown message, effs) \<Rightarrow> (Thrown message, effs)
              | (Pending, effs) \<Rightarrow> (Pending, effs)
              | (Returned executionResult, effs) \<Rightarrow>
                  (case logExecution env src executionResult of
                     (Thrown message, effs') \<Rightarrow> (Thrown message, effs @ effs')
                   | (Pending, effs') \<Rightarrow> (Pending, effs @ effs')
                   | (Returned u, effs') \<Rightarrow>
                       (Returned
                          \<lparr>success = (status executionResult = Success),
                           data = executionResult,
                           error_message =
                             (if status executionResult = Error
                              then (if error executionResult = Some [] then None
                                    else error executionResult)
                              else None),
                           executionTime = now_measure_end env - now_measure_start env\<rparr>,
                        effs @ effs')))"

subsection \<open>Reading a list of events\<close>

text \<open>The events whose callback calls \<^verbatim>\<open>resolve\<close>.\<close>

fun settling :: "proc_event \<Rightarrow> bool" where
  "settling (Close exit_code) = True"
| "settling (ProcError message) = True"
| "settling e = False"

text \<open>The events before the first settling one, and that event.\<close>

fun first_settling :: "proc_event list \<Rightarrow> (proc_event list \<times> proc_event) option" where
  "first_settling [] = None"
| "first_settling (e # es) =
     (if settling e then Some ([], e)
      else map_option (\<lambda>(pre, s). (e # pre, s)) (first_settling es))"

text \<open>What the child wrote on its standard streams.\<close>

fun stdout_text :: "proc_event list \<Rightarrow> string" where
  "stdout_text [] = []"
| "stdout_text (StdoutData d # es) = d @ stdout_text es"
| "stdout_text (e # es) = stdout_text es"

fun stderr_text :: "proc_event list \<Rightarrow> string" where
  "stderr_text [] = []"
| "stderr_text (StderrData d # es) = d @ stderr_text es"
| "stderr_text (e # es) = stderr_text es"

text \<open>
  The deadline timer became due, and \<^verbatim>\<open>SIGKILL\<close> was sent, before the \<^verbatim>\<open>'close'\<close> event
  that settles the call.
\<close>

definition deadline_before_close :: "proc_event list \<Rightarrow> bool" where
  "deadline_before_close evs =
     (case first_settling evs of
        Some (pre, Close exit_code) \<Rightarrow> TimerFired \<in> set pre
      | _ \<Rightarrow> False)"

text \<open>The call is settled by a \<^verbatim>\<open>'close'\<close> event that carries exit code zero.\<close>

definition closed_with_zero :: "proc_event list \<Rightarrow> bool" where
  "closed_with_zero evs =
     (case first_settling evs of
        Some (pre, Close exit_code) \<Rightarrow> exit_code = Some 0
      | _ \<Rightarrow> False)"

text \<open>
  The error text the close handler reports, \<^verbatim>\<open>cleanError || null\<close>, for the standard error
  captured before the settling event.
\<close>

definition reported_error :: "bool \<Rightarrow> proc_event list \<Rightarrow> string option" where
  "reported_error captureOutput evs =
     (case first_settling evs of
        None \<Rightarrow> None
      | Some (pre, s) \<Rightarrow>
          (let cleanError = parseError (if captureOutput then stderr_text pre else [])
           in if cleanError = Some [] then None else cleanError))"

subsection \<open>Files\<close>

text \<open>The effect of a call on the files of the temporary directory, by path.\<close>

fun apply_effect :: "(string \<rightharpoonup> string) \<Rightarrow> effect \<Rightarrow> (string \<rightharpoonup> string)" where
  "apply_effect files (WriteFile path content) = files(path \<mapsto> content)"
| "apply_effect files (Unlink path) = files(path := None)"
| "apply_effect files e = files"

subsection \<open>A sample environment\<close>

text \<open>
  A call in which every step succeeds: the interpreter exits with code zero after 38 ms
  and writes nothing.
\<close>

definition sample_env :: environment where
  "sample_env =
     \<lparr>now_name = 1700000000000, mkdir_exit = MkdirClose (Some 0), writeFile_error = None,
      proc_events = [Close (Some 0)], now_start = 1700000000004, now_end = 1700000000042,
      unlink_error = None, upsert_outcome = Resolves, create_outcome = Resolves,
      now_measure_start = 1700000000000, now_measure_end = 1700000000050\<rparr>"

definition sample_parameters :: "string \<Rightarrow> parameters" where
  "sample_parameters src = \<lparr>p_code = Some src, p_timeout = None, p_capture_output = None\<rparr>"

subsection \<open>Reading the database calls\<close>

text \<open>
  Whether the calls the logger awaits all settle (the second is made only when the first
  resolves), and the error of the first that rejects.
\<close>

definition logging_settles :: "environment \<Rightarrow> bool" where
  "logging_settles env =
     (case upsert_outcome env of
        Resolves \<Rightarrow> create_outcome env \<noteq> NeverSettles
      | Rejects message \<Rightarrow> True
      | NeverSettles \<Rightarrow> False)"

definition logging_rejection :: "environment \<Rightarrow> string option" where
  "logging_rejection env =
     (case upsert_outcome env of
        Resolves \<Rightarrow> (case create_outcome env of Rejects message \<Rightarrow> Some message | _ \<Rightarrow> None)
      | Rejects message \<Rightarrow> Some message
      | NeverSettles \<Rightarrow> None)"

subsection \<open>Reading an outcome\<close>

text \<open>The status of the execution result a call returns, if it returns one.\<close>

definition returned_status :: "tool_result outcome \<Rightarrow> status option" where
  "returned_status out = (case out of Returned r \<Rightarrow> Some (status (data r)) | _ \<Rightarrow> None)"

section \<open>Properties\<close>

subsection \<open>Strings\<close>

lemma indexOf_None_iff: "indexOf s m = None \<longleftrightarrow> \<not> sublist m s"
  by (induction s) (auto simp: sublist_Cons_right)

lemma indexOf_Some_prefix: "indexOf s m = Some i \<Longrightarrow> i \<le> length s \<and> prefix m (drop i s)"
proof (induction s arbitrary: i)
  case Nil
  then show ?case by (auto split: if_splits)
next
  case (Cons c cs)
  then show ?case by (auto split: if_splits)
qed

text \<open>\<^const>\<open>indexOf\<close> finds the first occurrence: the needle starts at no earlier position.\<close>

lemma indexOf_Some_least: "indexOf s m = Some i \<Longrightarrow> k < i \<Longrightarrow> \<not> prefix m (drop k s)"
proof (induction s arbitrary: i k)
  case Nil
  then show ?case by (auto split: if_splits)
next
  case (Cons c cs)
  show ?case
  proof (cases "prefix m (c # cs)")
    case True
    with Cons.prems show ?thesis by simp
  next
    case False
    with Cons.prems obtain j where j: "indexOf cs m = Some j" "i = Suc j" by auto
    show ?thesis
    proof (cases k)
      case 0
      with False show ?thesis by simp
    next
      case (Suc k')
      with Cons.prems j have "k' < j" by simp
      from Cons.IH[OF j(1) this] Suc show ?thesis by simp
    qed
  qed
qed

lemma trim_empty_iff: "trim s = [] \<longleftrightarrow> (\<forall>c\<in>set s. is_space c)"
proof
  assume "trim s = []"
  then have all: "\<forall>c\<in>set (dropWhile is_space s). is_space c"
    by (simp add: trim_def dropWhile_eq_Nil_conv)
  have "dropWhile is_space s = []"
  proof (rule ccontr)
    assume ne: "dropWhile is_space s \<noteq> []"
    then have "\<not> is_space (hd (dropWhile is_space s))" by (rule hd_dropWhile)
    moreover from ne have "hd (dropWhile is_space s) \<in> set (dropWhile is_space s)" by simp
    ultimately show False using all by blast
  qed
  then show "\<forall>c\<in>set s. is_space c" by (simp add: dropWhile_eq_Nil_conv)
next
  assume "\<forall>c\<in>set s. is_space c"
  then show "trim s = []" by (auto simp: trim_def dest: set_dropWhileD)
qed

lemma rev_dropWhile_takeWhile:
  "rev (dropWhile P (rev xs)) @ rev (takeWhile P (rev xs)) = xs"
proof -
  have "rev (takeWhile P (rev xs) @ dropWhile P (rev xs)) = xs"
    by (simp only: takeWhile_dropWhile_id rev_rev_ident)
  then show ?thesis by (simp only: rev_append)
qed

text \<open>
  \<^const>\<open>trim\<close> removes white space from both ends and nothing else, and what it leaves
  neither starts nor ends with white space.
\<close>

lemma trim_decomposition:
  "\<exists>a b. s = a @ trim s @ b \<and> (\<forall>c\<in>set a. is_space c) \<and> (\<forall>c\<in>set b. is_space c)"
proof -
  let ?t = "dropWhile is_space s"
  let ?a = "takeWhile is_space s"
  let ?b = "rev (takeWhile is_space (rev ?t))"
  have t: "?t = trim s @ ?b"
    unfolding trim_def by (rule rev_dropWhile_takeWhile[symmetric])
  have "s = ?a @ ?t" by simp
  with t have "s = ?a @ trim s @ ?b" by simp
  moreover have "\<forall>c\<in>set ?a. is_space c" by (auto dest: set_takeWhileD)
  moreover have "\<forall>c\<in>set ?b. is_space c" by (auto dest: set_takeWhileD)
  ultimately show ?thesis by (intro exI conjI)
qed

lemma trim_ends:
  assumes "trim s \<noteq> []"
  shows "\<not> is_space (hd (trim s)) \<and> \<not> is_space (last (trim s))"
proof -
  let ?t = "dropWhile is_space s"
  let ?u = "dropWhile is_space (rev ?t)"
  from assms have u: "?u \<noteq> []" by (simp add: trim_def)
  then have "\<not> is_space (hd ?u)" by (rule hd_dropWhile)
  with u have l: "\<not> is_space (last (trim s))" by (simp add: trim_def last_rev)
  have t: "?t = trim s @ rev (takeWhile is_space (rev ?t))"
    unfolding trim_def by (rule rev_dropWhile_takeWhile[symmetric])
  have "?t \<noteq> []"
  proof
    assume "?t = []"
    with t have "trim s @ rev (takeWhile is_space (rev ?t)) = []" by (rule subst)
    then have "trim s = []" by (simp only: append_is_Nil_conv)
    with assms show False by (rule notE)
  qed
  then have "\<not> is_space (hd ?t)" by (rule hd_dropWhile)
  moreover from t assms have "hd ?t = hd (trim s)" by (metis hd_append2)
  ultimately show ?thesis using l by simp
qed

lemma parseOutput_absent:
  "\<not> (sublist OUTPUT_START s \<and> sublist OUTPUT_END s) \<Longrightarrow> parseOutput s = trim s"
  by (auto simp: parseOutput_def Let_def indexOf_None_iff[symmetric] split: option.splits)

lemma parseError_absent:
  "\<not> (sublist ERROR_START s \<and> sublist ERROR_END s) \<Longrightarrow>
     parseError s = (if trim s = [] then None else Some (trim s))"
  by (auto simp: parseError_def Let_def indexOf_None_iff[symmetric] split: option.splits)

lemma sublist_iff_indexOf: "sublist m s \<longleftrightarrow> indexOf s m \<noteq> None"
  by (simp add: indexOf_None_iff)

text \<open>
  Where the first occurrence of \<open>b\<close> starts at or after the end of the first occurrence
  of \<open>a\<close>, the text is what precedes \<open>a\<close>, then \<open>a\<close>, the text between the two, \<open>b\<close>
  and what follows it, and \<^verbatim>\<open>substring\<close> cuts out exactly the text between the two.
\<close>

lemma substring_ordered:
  assumes "indexOf s a = Some i" "indexOf s b = Some j" "i + length a \<le> j"
  shows "s = take i s @ a @ take (j - (i + length a)) (drop (i + length a) s) @ b @
               drop (j + length b) s \<and>
         substring s (i + length a) j = take (j - (i + length a)) (drop (i + length a) s)"
proof -
  from indexOf_Some_prefix[OF assms(1)] obtain r1 where
    i: "i \<le> length s" and r1: "drop i s = a @ r1"
    by (auto simp: prefix_def)
  from indexOf_Some_prefix[OF assms(2)] obtain r2 where
    j: "j \<le> length s" and r2: "drop j s = b @ r2"
    by (auto simp: prefix_def)
  define d where "d = j - (i + length a)"
  have jd: "j = i + length a + d" using assms(3) by (simp add: d_def)
  have "drop (i + length a) s = drop (length a) (drop i s)" by (simp add: add.commute)
  then have mid_rest: "drop (i + length a) s = r1" by (simp add: r1)
  have "drop j s = drop d (drop (i + length a) s)" by (simp add: jd add.commute)
  with mid_rest r2 have dr: "drop d r1 = b @ r2" by simp
  have "drop (j + length b) s = drop (length b) (drop j s)" by (simp add: add.commute)
  then have tail: "drop (j + length b) s = r2" by (simp add: r2)
  have "s = take i s @ drop i s" by simp
  also have "drop i s = a @ (take d r1 @ drop d r1)" by (simp add: r1)
  finally have s_eq: "s = take i s @ a @ take d r1 @ b @ r2" by (simp add: dr)
  have split: "s = take i s @ a @ take (j - (i + length a)) (drop (i + length a) s) @ b @
      drop (j + length b) s"
    unfolding mid_rest tail d_def[symmetric] by (rule s_eq)
  have "i + length a \<le> length s" using assms(3) j by simp
  with assms(3) j have
    "substring s (i + length a) j = take (j - (i + length a)) (drop (i + length a) s)"
    by (simp add: substring_def Let_def min_def max_def)
  with split show ?thesis by (rule conjI)
qed

text \<open>
  Where it starts earlier, \<^verbatim>\<open>substring\<close> swaps its arguments: the result runs from the start
  of \<open>b\<close> to the end of \<open>a\<close>.
\<close>

lemma substring_disordered:
  assumes "indexOf s a = Some i" "j < i + length a"
  shows "substring s (i + length a) j = take (i + length a - j) (drop j s)"
proof -
  from indexOf_Some_prefix[OF assms(1)] obtain r1 where
    i: "i \<le> length s" and r1: "drop i s = a @ r1"
    by (auto simp: prefix_def)
  have "length (drop i s) = length a + length r1" by (simp add: r1)
  then have "i + length a \<le> length s" using i by simp
  with assms(2) show ?thesis
    by (simp add: substring_def Let_def min_def max_def)
qed

subsection \<open>The extraction routines\<close>

text \<open>
  Claim C6, amended. \<^const>\<open>parseOutput\<close> and \<^const>\<open>parseError\<close> are total functions of
  the captured text (the JavaScript primitives they are built from never throw on strings).
  If one of the two sentinels does not occur, the result is the whole text trimmed, and for
  the error extractor \<^verbatim>\<open>null\<close> when that is empty. If both occur, the first start sentinel
  at position \<open>i\<close> and the first end sentinel at position \<open>j\<close>, and the end sentinel starts
  at or after the end of the start sentinel, then the text consists of what precedes
  position \<open>i\<close>, the start sentinel, the text from the end of that sentinel up to position
  \<open>j\<close>, the end sentinel and the rest, and the result is that text between the two,
  trimmed. If the first end sentinel starts before the end of the first start sentinel,
  the result is instead the trimmed text from the start of that end sentinel to the end of
  the start sentinel, sentinels included. A position found by \<^const>\<open>indexOf\<close> is the first
  at which the sentinel starts.
\<close>

theorem extraction_cases:
  "(\<not> (sublist OUTPUT_START s \<and> sublist OUTPUT_END s) \<longrightarrow> parseOutput s = trim s) \<and>
   (indexOf s OUTPUT_START = Some i \<and> indexOf s OUTPUT_END = Some j \<and>
    i + length OUTPUT_START \<le> j \<longrightarrow>
      (s = take i s @ OUTPUT_START @
             take (j - (i + length OUTPUT_START)) (drop (i + length OUTPUT_START) s) @
             OUTPUT_END @ drop (j + length OUTPUT_END) s \<and>
       parseOutput s =
         trim (take (j - (i + length OUTPUT_START)) (drop (i + length OUTPUT_START) s)))) \<and>
   (indexOf s OUTPUT_START = Some i \<and> indexOf s OUTPUT_END = Some j \<and>
    j < i + length OUTPUT_START \<longrightarrow>
      parseOutput s = trim (take (i + length OUTPUT_START - j) (drop j s))) \<and>
   (\<not> (sublist ERROR_START s \<and> sublist ERROR_END s) \<longrightarrow>
      parseError s = (if trim s = [] then None else Some (trim s))) \<and>
   (indexOf s ERROR_START = Some i \<and> indexOf s ERROR_END = Some j \<and>
    i + length ERROR_START \<le> j \<longrightarrow>
      (s = take i s @ ERROR_START @
             take (j - (i + length ERROR_START)) (drop (i + length ERROR_START) s) @
             ERROR_END @ drop (j + length ERROR_END) s \<and>
       parseError s =
         Some (trim (take (j - (i + length ERROR_START)) (drop (i + length ERROR_START) s))))) \<and>
   (indexOf s ERROR_START = Some i \<and> indexOf s ERROR_END = Some j \<and>
    j < i + length ERROR_START \<longrightarrow>
      parseError s = Some (trim (take (i + length ERROR_START - j) (drop j s)))) \<and>
   (indexOf s m = Some i \<longrightarrow>
      (i \<le> length s \<and> prefix m (drop i s) \<and> (\<forall>k<i. \<not> prefix m (drop k s))))"
proof -
  have out_ordered:
    "s = take i s @ OUTPUT_START @
           take (j - (i + length OUTPUT_START)) (drop (i + length OUTPUT_START) s) @
           OUTPUT_END @ drop (j + length OUTPUT_END) s \<and>
     parseOutput s =
       trim (take (j - (i + length OUTPUT_START)) (drop (i + length OUTPUT_START) s))"
    if h: "indexOf s OUTPUT_START = Some i" "indexOf s OUTPUT_END = Some j"
      "i + length OUTPUT_START \<le> j"
  proof -
    have "parseOutput s = trim (substring s (i + length OUTPUT_START) j)"
      using h(1,2) by (simp add: parseOutput_def Let_def)
    with substring_ordered[OF h] show ?thesis by simp
  qed
  have err_ordered:
    "s = take i s @ ERROR_START @
           take (j - (i + length ERROR_START)) (drop (i + length ERROR_START) s) @
           ERROR_END @ drop (j + length ERROR_END) s \<and>
     parseError s =
       Some (trim (take (j - (i + length ERROR_START)) (drop (i + length ERROR_START) s)))"
    if h: "indexOf s ERROR_START = Some i" "indexOf s ERROR_END = Some j"
      "i + length ERROR_START \<le> j"
  proof -
    have "parseError s = Some (trim (substring s (i + length ERROR_START) j))"
      using h(1,2) by (simp add: parseError_def Let_def)
    with substring_ordered[OF h] show ?thesis by simp
  qed
  have out_dis: "parseOutput s = trim (take (i + length OUTPUT_START - j) (drop j s))"
    if h: "indexOf s OUTPUT_START = Some i" "indexOf s OUTPUT_END = Some j"
      "j < i + length OUTPUT_START"
    using h substring_disordered[OF h(1) h(3)] by (simp add: parseOutput_def Let_def)
  have err_dis: "parseError s = Some (trim (take (i + length ERROR_START - j) (drop j s)))"
    if h: "indexOf s ERROR_START = Some i" "indexOf s ERROR_END = Some j"
      "j < i + length ERROR_START"
    using h substring_disordered[OF h(1) h(3)] by (simp add: parseError_def Let_def)
  have first: "i \<le> length s \<and> prefix m (drop i s) \<and> (\<forall>k<i. \<not> prefix m (drop k s))"
    if h: "indexOf s m = Some i"
    using indexOf_Some_prefix[OF h] indexOf_Some_least[OF h] by blast
  show ?thesis
    using parseOutput_absent[of s] parseError_absent[of s] out_ordered err_ordered out_dis
      err_dis first
    by blast
qed

theorem extraction_cases_witness:
  "(\<not> (sublist OUTPUT_START ''  plain text '' \<and> sublist OUTPUT_END ''  plain text '') \<and>
    parseOutput ''  plain text '' = ''plain text'') \<and>
   (indexOf ''log AVILINK_OUTPUT_START hi AVILINK_OUTPUT_END bye AVILINK_OUTPUT_END''
      OUTPUT_START = Some 4 \<and>
    indexOf ''log AVILINK_OUTPUT_START hi AVILINK_OUTPUT_END bye AVILINK_OUTPUT_END''
      OUTPUT_END = Some 28 \<and>
    4 + length OUTPUT_START \<le> 28 \<and>
    parseOutput ''log AVILINK_OUTPUT_START hi AVILINK_OUTPUT_END bye AVILINK_OUTPUT_END'' =
      ''hi'') \<and>
   (indexOf ''AVILINK_OUTPUT_END x AVILINK_OUTPUT_START'' OUTPUT_START = Some 21 \<and>
    indexOf ''AVILINK_OUTPUT_END x AVILINK_OUTPUT_START'' OUTPUT_END = Some 0 \<and>
    0 < 21 + length OUTPUT_START \<and>
    parseOutput ''AVILINK_OUTPUT_END x AVILINK_OUTPUT_START'' =
      ''AVILINK_OUTPUT_END x AVILINK_OUTPUT_START'') \<and>
   (\<not> (sublist ERROR_START '' warning '' \<and> sublist ERROR_END '' warning '') \<and>
    parseError '' warning '' = Some ''warning'') \<and>
   (indexOf ''AVILINK_ERROR_START boom AVILINK_ERROR_END'' ERROR_START = Some 0 \<and>
    indexOf ''AVILINK_ERROR_START boom AVILINK_ERROR_END'' ERROR_END = Some 25 \<and>
    0 + length ERROR_START \<le> 25 \<and>
    parseError ''AVILINK_ERROR_START boom AVILINK_ERROR_END'' = Some ''boom'') \<and>
   (indexOf ''AVILINK_ERROR_END x AVILINK_ERROR_START'' ERROR_START = Some 20 \<and>
    indexOf ''AVILINK_ERROR_END x AVILINK_ERROR_START'' ERROR_END = Some 0 \<and>
    0 < 20 + length ERROR_START \<and>
    parseError ''AVILINK_ERROR_END x AVILINK_ERROR_START'' =
      Some ''AVILINK_ERROR_END x AVILINK_ERROR_START'') \<and>
   (indexOf ''log AVILINK_OUTPUT_START hi'' OUTPUT_START = Some 4 \<and>
    prefix OUTPUT_START (drop 4 ''log AVILINK_OUTPUT_START hi''))"
proof -
  let ?plain = "''  plain text ''"
  let ?framed = "''log AVILINK_OUTPUT_START hi AVILINK_OUTPUT_END bye AVILINK_OUTPUT_END''"
  let ?turned = "''AVILINK_OUTPUT_END x AVILINK_OUTPUT_START''"
  let ?warn = "'' warning ''"
  let ?boom = "''AVILINK_ERROR_START boom AVILINK_ERROR_END''"
  let ?eturned = "''AVILINK_ERROR_END x AVILINK_ERROR_START''"
  let ?short = "''log AVILINK_OUTPUT_START hi''"
  note cases = extraction_cases
  have h1: "\<not> (sublist OUTPUT_START ?plain \<and> sublist OUTPUT_END ?plain)"
    by (simp add: sublist_iff_indexOf OUTPUT_START_def)
  have "parseOutput ?plain = trim ?plain"
    using cases[of ?plain 0 0 "[]", THEN conjunct1] h1 by (rule mp)
  then have r1: "parseOutput ?plain = ''plain text''"
    by (simp add: trim_def is_space_def)
  have h2: "indexOf ?framed OUTPUT_START = Some 4 \<and> indexOf ?framed OUTPUT_END = Some 28 \<and>
      4 + length OUTPUT_START \<le> 28"
    by (simp add: OUTPUT_START_def OUTPUT_END_def)
  have "?framed = take 4 ?framed @ OUTPUT_START @
           take (28 - (4 + length OUTPUT_START)) (drop (4 + length OUTPUT_START) ?framed) @
           OUTPUT_END @ drop (28 + length OUTPUT_END) ?framed \<and>
     parseOutput ?framed =
       trim (take (28 - (4 + length OUTPUT_START)) (drop (4 + length OUTPUT_START) ?framed))"
    using cases[of ?framed 4 28 "[]", THEN conjunct2, THEN conjunct1] h2 by (rule mp)
  then have "parseOutput ?framed =
       trim (take (28 - (4 + length OUTPUT_START)) (drop (4 + length OUTPUT_START) ?framed))"
    by (rule conjunct2)
  then have r2: "parseOutput ?framed = ''hi''"
    by (simp add: OUTPUT_START_def trim_def is_space_def)
  have h3: "indexOf ?turned OUTPUT_START = Some 21 \<and> indexOf ?turned OUTPUT_END = Some 0 \<and>
      0 < 21 + length OUTPUT_START"
    by (simp add: OUTPUT_START_def OUTPUT_END_def)
  have "parseOutput ?turned = trim (take (21 + length OUTPUT_START - 0) (drop 0 ?turned))"
    using cases[of ?turned 21 0 "[]", THEN conjunct2, THEN conjunct2, THEN conjunct1] h3
    by (rule mp)
  then have r3: "parseOutput ?turned = ?turned"
    by (simp add: OUTPUT_START_def trim_def is_space_def)
  have h4: "\<not> (sublist ERROR_START ?warn \<and> sublist ERROR_END ?warn)"
    by (simp add: sublist_iff_indexOf ERROR_START_def)
  have "parseError ?warn = (if trim ?warn = [] then None else Some (trim ?warn))"
    using cases[of ?warn 0 0 "[]", THEN conjunct2, THEN conjunct2, THEN conjunct2,
        THEN conjunct1] h4
    by (rule mp)
  then have r4: "parseError ?warn = Some ''warning''"
    by (simp add: trim_def is_space_def)
  have h5: "indexOf ?boom ERROR_START = Some 0 \<and> indexOf ?boom ERROR_END = Some 25 \<and>
      0 + length ERROR_START \<le> 25"
    by (simp add: ERROR_START_def ERROR_END_def)
  have "?boom = take 0 ?boom @ ERROR_START @
           take (25 - (0 + length ERROR_START)) (drop (0 + length ERROR_START) ?boom) @
           ERROR_END @ drop (25 + length ERROR_END) ?boom \<and>
     parseError ?boom =
       Some (trim (take (25 - (0 + length ERROR_START)) (drop (0 + length ERROR_START) ?boom)))"
    using cases[of ?boom 0 25 "[]", THEN conjunct2, THEN conjunct2, THEN conjunct2,
        THEN conjunct2, THEN conjunct1] h5
    by (rule mp)
  then have "parseError ?boom =
       Some (trim (take (25 - (0 + length ERROR_START)) (drop (0 + length ERROR_START) ?boom)))"
    by (rule conjunct2)
  then have r5: "parseError ?boom = Some ''boom''"
    by (simp add: ERROR_START_def trim_def is_space_def)
  have h6: "indexOf ?eturned ERROR_START = Some 20 \<and> indexOf ?eturned ERROR_END = Some 0 \<and>
      0 < 20 + length ERROR_START"
    by (simp add: ERROR_START_def ERROR_END_def)
  have "parseError ?eturned =
      Some (trim (take (20 + length ERROR_START - 0) (drop 0 ?eturned)))"
    using cases[of ?eturned 20 0 "[]", THEN conjunct2, THEN conjunct2, THEN conjunct2,
        THEN conjunct2, THEN conjunct2, THEN conjunct1] h6
    by (rule mp)
  then have r6: "parseError ?eturned = Some ?eturned"
    by (simp add: ERROR_START_def trim_def is_space_def)
  have h7: "indexOf ?short OUTPUT_START = Some 4"
    by (simp add: OUTPUT_START_def)
  have "4 \<le> length ?short \<and> prefix OUTPUT_START (drop 4 ?short) \<and>
      (\<forall>k<4. \<not> prefix OUTPUT_START (drop k ?short))"
    using cases[of ?short 4 0 OUTPUT_START, THEN conjunct2, THEN conjunct2, THEN conjunct2,
        THEN conjunct2, THEN conjunct2, THEN conjunct2] h7
    by (rule mp)
  then have r7: "prefix OUTPUT_START (drop 4 ?short)" by blast
  from h1 r1 h2 r2 h3 r3 h4 r4 h5 r5 h6 r6 h7 r7 show ?thesis by blast
qed

text \<open>
  Both output sentinels occur, the end sentinel first: the result is the whole text with
  the sentinels, not the text \<open>x\<close> between them.
\<close>

theorem extraction_reversed_counterexample:
  "sublist OUTPUT_START ''AVILINK_OUTPUT_END x AVILINK_OUTPUT_START'' \<and>
   sublist OUTPUT_END ''AVILINK_OUTPUT_END x AVILINK_OUTPUT_START'' \<and>
   parseOutput ''AVILINK_OUTPUT_END x AVILINK_OUTPUT_START'' =
     ''AVILINK_OUTPUT_END x AVILINK_OUTPUT_START'' \<and>
   parseOutput ''AVILINK_OUTPUT_END x AVILINK_OUTPUT_START'' \<noteq> trim '' x ''"
  by (simp add: sublist_iff_indexOf OUTPUT_START_def OUTPUT_END_def parseOutput_def
      substring_def trim_def is_space_def)

subsection \<open>The Safety Pre-Filter\<close>

lemma matches_match_here: "matches p m \<Longrightarrow> match_here p (m @ rest)"
proof (induction arbitrary: rest rule: matches.induct)
  case matches_Nil
  show ?case by simp
next
  case (matches_Lit r m l)
  then show ?case by simp
next
  case (matches_Plus c r m)
  then show ?case by simp
next
  case (matches_Star_skip r m)
  show ?case
  proof (cases "m @ rest")
    case Nil
    have "match_here r []" using matches_Star_skip.IH[of rest] unfolding Nil .
    then have "match_here (SpaceStar # r) []" by simp
    then show ?thesis unfolding Nil .
  next
    case (Cons c cs)
    have "match_here r (c # cs)" using matches_Star_skip.IH[of rest] unfolding Cons .
    then have "match_here (SpaceStar # r) (c # cs)" by simp
    then show ?thesis unfolding Cons .
  qed
next
  case (matches_Star_step c r m)
  then show ?case by simp
qed

lemma match_here_matches: "match_here p s \<Longrightarrow> \<exists>m rest. s = m @ rest \<and> matches p m"
proof (induction p s rule: match_here.induct)
  case (1 s)
  have "s = [] @ s \<and> matches [] []" by (simp add: matches_Nil)
  then show ?case by blast
next
  case (2 l r s)
  from "2.prems" have pre: "prefix l s" and rest: "match_here r (drop (length l) s)"
    by (simp_all split: if_splits)
  from "2.IH"[OF pre rest] obtain m rest' where
    d: "drop (length l) s = m @ rest'" and m: "matches r m"
    by blast
  from pre obtain t where t: "s = l @ t" by (auto simp: prefix_def)
  with d have "s = (l @ m) @ rest'" by simp
  moreover from m have "matches (Lit l # r) (l @ m)" by (rule matches_Lit)
  ultimately show ?case by blast
next
  case (3 r)
  then show ?case by simp
next
  case (4 r c cs)
  from "4.prems" have sp: "is_space c" and rest: "match_here (SpaceStar # r) cs"
    by (simp_all split: if_splits)
  from "4.IH"[OF sp rest] obtain m rest' where
    d: "cs = m @ rest'" and m: "matches (SpaceStar # r) m"
    by blast
  from d have "c # cs = (c # m) @ rest'" by simp
  moreover from sp m have "matches (SpacePlus # r) (c # m)" by (rule matches_Plus)
  ultimately show ?case by blast
next
  case (5 r)
  from "5.prems" have "match_here r []" by simp
  from "5.IH"[OF this] have "matches r []" by simp
  then have "matches (SpaceStar # r) []" by (rule matches_Star_skip)
  then show ?case by simp
next
  case (6 r c cs)
  show ?case
  proof (cases "is_space c \<and> match_here (SpaceStar # r) cs")
    case True
    then have sp: "is_space c" and rest: "match_here (SpaceStar # r) cs" by simp_all
    from "6.IH"(1)[OF rest] obtain m rest' where
      d: "cs = m @ rest'" and m: "matches (SpaceStar # r) m"
      by blast
    from d have "c # cs = (c # m) @ rest'" by simp
    moreover from sp m have "matches (SpaceStar # r) (c # m)" by (rule matches_Star_step)
    ultimately show ?thesis by blast
  next
    case False
    with "6.prems" have "match_here r (c # cs)" by (simp split: if_splits)
    from "6.IH"(2)[OF False this] obtain m rest' where
      d: "c # cs = m @ rest'" and m: "matches r m"
      by blast
    from m have "matches (SpaceStar # r) m" by (rule matches_Star_skip)
    with d show ?thesis by blast
  qed
qed

lemma match_here_regex_test: "match_here p s \<Longrightarrow> regex_test p s"
  by (cases s) simp_all

lemma regex_testI: "matches p m \<Longrightarrow> regex_test p (pre @ m @ post)"
proof (induction pre)
  case Nil
  from matches_match_here[OF Nil, of post] have "match_here p (m @ post)" .
  then have "regex_test p (m @ post)" by (rule match_here_regex_test)
  then show ?case by (simp only: append_Nil)
next
  case (Cons c cs)
  from Cons.IH[OF Cons.prems] have "regex_test p (c # (cs @ m @ post))" by simp
  then show ?case by (simp only: append_Cons)
qed

lemma regex_testD: "regex_test p s \<Longrightarrow> \<exists>pre m post. s = pre @ m @ post \<and> matches p m"
proof (induction s)
  case Nil
  then have "match_here p []" by simp
  from match_here_matches[OF this] have m: "matches p []" by simp
  have "[] = [] @ [] @ ([] :: string)" by simp
  with m show ?case by (intro exI conjI)
next
  case (Cons c cs)
  show ?case
  proof (cases "match_here p (c # cs)")
    case True
    from match_here_matches[OF this] obtain m rest where
      eq: "c # cs = m @ rest" and m: "matches p m"
      by (elim exE conjE)
    from eq have "c # cs = [] @ m @ rest" by (simp only: append_Nil)
    with m show ?thesis by (intro exI conjI)
  next
    case False
    with Cons.prems have "regex_test p cs" by simp
    from Cons.IH[OF this] obtain pre m post where
      eq: "cs = pre @ m @ post" and m: "matches p m"
      by (elim exE conjE)
    from eq have "c # cs = (c # pre) @ m @ post" by (simp only: append_Cons)
    with m show ?thesis by (intro exI conjI)
  qed
qed

text \<open>\<^verbatim>\<open>pattern.test(s)\<close> holds exactly when some part of the text matches the pattern.\<close>

lemma regex_test_iff:
  "regex_test p s \<longleftrightarrow> (\<exists>pre m post. s = pre @ m @ post \<and> matches p m)"
proof
  assume "regex_test p s"
  then show "\<exists>pre m post. s = pre @ m @ post \<and> matches p m" by (rule regex_testD)
next
  assume "\<exists>pre m post. s = pre @ m @ post \<and> matches p m"
  then obtain pre m post where s: "s = pre @ m @ post" and m: "matches p m"
    by (elim exE conjE)
  from regex_testI[OF m, of pre post] show "regex_test p s" unfolding s .
qed

lemma containsUnsafeOperations_iff:
  "containsUnsafeOperations src \<longleftrightarrow>
     (\<exists>pattern\<in>set unsafePatterns. \<exists>pre m post. src = pre @ m @ post \<and> matches pattern m)"
  by (simp add: containsUnsafeOperations_def list_ex_iff regex_test_iff)

subsection \<open>The Process Runner\<close>

lemma resolved_on_event:
  "resolved st = Some r \<Longrightarrow> resolved (on_event timeout cap st e) = Some r"
  by (cases e) (simp_all add: on_close_def on_error_def resolve_def clearTimeout_def Let_def)

lemma resolved_foldl:
  "resolved st = Some r \<Longrightarrow> resolved (foldl (on_event timeout cap) st evs) = Some r"
  by (induction evs arbitrary: st) (simp_all add: resolved_on_event)

lemma resolved_after_close:
  "resolved st = None \<Longrightarrow>
   resolved (on_close timeout c st) =
     Some (if timedOut st then timeout_result timeout
           else close_result (buf_output st) (buf_error st) c)"
  by (auto simp: on_close_def resolve_def clearTimeout_def Let_def)

lemma resolved_after_error:
  "resolved st = None \<Longrightarrow> resolved (on_error m st) = Some (error_result m)"
  by (simp add: on_error_def resolve_def clearTimeout_def Let_def)

text \<open>
  The promise is resolved by the first settling event, from what was collected before it;
  the flag \<open>timedOut\<close> is then set exactly when the timer became due before.
\<close>

lemma run_from:
  assumes "resolved st = None" "timer_pending st = (\<not> timedOut st)"
  shows "resolved (foldl (on_event timeout cap) st evs) =
     (case first_settling evs of
        None \<Rightarrow> None
      | Some (pre, Close c) \<Rightarrow>
          Some (if timedOut st \<or> TimerFired \<in> set pre then timeout_result timeout
                else close_result (buf_output st @ (if cap then stdout_text pre else []))
                       (buf_error st @ (if cap then stderr_text pre else [])) c)
      | Some (pre, ProcError m) \<Rightarrow> Some (error_result m)
      | Some (pre, other) \<Rightarrow> None)"
  using assms
proof (induction evs arbitrary: st)
  case Nil
  then show ?case by simp
next
  case (Cons e es)
  show ?case
  proof (cases e)
    case (StdoutData d)
    let ?st = "on_event timeout cap st e"
    have "resolved ?st = None" "timer_pending ?st = (\<not> timedOut ?st)"
      using Cons.prems StdoutData by simp_all
    from Cons.IH[OF this] StdoutData show ?thesis
      by (auto split: option.splits prod.splits proc_event.splits)
  next
    case (StderrData d)
    let ?st = "on_event timeout cap st e"
    have "resolved ?st = None" "timer_pending ?st = (\<not> timedOut ?st)"
      using Cons.prems StderrData by simp_all
    from Cons.IH[OF this] StderrData show ?thesis
      by (auto split: option.splits prod.splits proc_event.splits)
  next
    case TimerFired
    let ?st = "on_event timeout cap st e"
    have "resolved ?st = None" "timer_pending ?st = (\<not> timedOut ?st)"
      using Cons.prems TimerFired by simp_all
    from Cons.IH[OF this] TimerFired Cons.prems show ?thesis
      by (auto split: option.splits prod.splits proc_event.splits)
  next
    case (Close c)
    with Cons.prems show ?thesis
      by (simp add: resolved_foldl resolved_after_close)
  next
    case (ProcError m)
    with Cons.prems show ?thesis
      by (simp add: resolved_foldl resolved_after_error)
  qed
qed

lemma runPythonProcess_eq:
  "runPythonProcess evs timeout cap =
     (case first_settling evs of
        None \<Rightarrow> None
      | Some (pre, Close c) \<Rightarrow>
          Some (if TimerFired \<in> set pre then timeout_result timeout
                else close_result (if cap then stdout_text pre else [])
                       (if cap then stderr_text pre else []) c)
      | Some (pre, ProcError m) \<Rightarrow> Some (error_result m)
      | Some (pre, other) \<Rightarrow> None)"
  unfolding runPythonProcess_def run_events_def
  by (subst run_from)
    (auto simp: runner_init_def split: option.splits prod.splits proc_event.splits)

lemma first_settling_settles: "first_settling evs = Some (pre, s) \<Longrightarrow> settling s"
  by (induction evs arbitrary: pre) (auto split: if_splits)

text \<open>The promise is settled exactly when a \<^verbatim>\<open>'close'\<close> or \<^verbatim>\<open>'error'\<close> event arrives.\<close>

lemma runPythonProcess_settles_iff:
  "runPythonProcess evs timeout cap \<noteq> None \<longleftrightarrow> list_ex settling evs"
proof -
  have a: "first_settling evs \<noteq> None \<longleftrightarrow> list_ex settling evs"
    by (induction evs) auto
  have b: "runPythonProcess evs timeout cap \<noteq> None \<longleftrightarrow> first_settling evs \<noteq> None"
    using first_settling_settles[of evs]
    by (auto simp: runPythonProcess_eq split: option.splits prod.splits proc_event.splits)
  from a b show ?thesis by simp
qed

text \<open>
  Claim C2, amended. For every call of the runner that resolves: the status is
  \<open>timeout\<close> if and only if the deadline timer became due (and the kill was sent) before
  the \<^verbatim>\<open>'close'\<close> event that settles the call, whatever exit code that event carries; it is
  \<open>success\<close> if and only if the timer did not become due before, that event carries
  exit code zero and the reported error is \<^verbatim>\<open>null\<close>; in every other case, an
  \<^verbatim>\<open>'error'\<close> event included, it is \<open>error\<close>.
\<close>

theorem runner_status_cases:
  assumes "runPythonProcess evs timeout cap = Some r"
  shows "(status r = Timeout \<longleftrightarrow> deadline_before_close evs) \<and>
         (status r = Success \<longleftrightarrow>
            \<not> deadline_before_close evs \<and> closed_with_zero evs \<and>
            reported_error cap evs = None) \<and>
         (status r = Error \<longleftrightarrow>
            \<not> deadline_before_close evs \<and>
            \<not> (closed_with_zero evs \<and> reported_error cap evs = None))"
proof (cases "first_settling evs")
  case None
  with assms show ?thesis by (simp add: runPythonProcess_eq)
next
  case (Some a)
  obtain pre s where a: "a = (pre, s)" by (cases a)
  show ?thesis
  proof (cases s)
    case (Close c)
    show ?thesis
    proof (cases "TimerFired \<in> set pre")
      case True
      with assms Some a Close have "r = timeout_result timeout"
        by (simp add: runPythonProcess_eq)
      with Some a Close True show ?thesis
        by (simp add: timeout_result_def deadline_before_close_def)
    next
      case False
      with assms Some a Close have
        "r = close_result (if cap then stdout_text pre else [])
               (if cap then stderr_text pre else []) c"
        by (simp add: runPythonProcess_eq)
      with Some a Close False show ?thesis
        by (auto simp: close_result_def Let_def deadline_before_close_def
            closed_with_zero_def reported_error_def)
    qed
  next
    case (ProcError m)
    with assms Some a have "r = error_result m" by (simp add: runPythonProcess_eq)
    with Some a ProcError show ?thesis
      by (simp add: error_result_def deadline_before_close_def closed_with_zero_def)
  next
    case (StdoutData d)
    with first_settling_settles[of evs pre s] Some a show ?thesis by simp
  next
    case (StderrData d)
    with first_settling_settles[of evs pre s] Some a show ?thesis by simp
  next
    case TimerFired
    with first_settling_settles[of evs pre s] Some a show ?thesis by simp
  qed
qed

theorem runner_status_cases_witness:
  "runPythonProcess [StdoutData ''4'', Close (Some 0)] 30 True =
     Some \<lparr>code = [], output_text = ''4'', error = None, execution_time = 0,
           status = Success\<rparr> \<and>
   \<not> deadline_before_close [StdoutData ''4'', Close (Some 0)] \<and>
   closed_with_zero [StdoutData ''4'', Close (Some 0)] \<and>
   reported_error True [StdoutData ''4'', Close (Some 0)] = None"
proof -
  let ?evs = "[StdoutData ''4'', Close (Some 0)]"
  let ?r = "\<lparr>code = [], output_text = ''4'', error = None, execution_time = 0,
             status = Success\<rparr>"
  have h: "runPythonProcess ?evs 30 True = Some ?r"
    by (simp add: runPythonProcess_def run_events_def runner_init_def on_close_def
        clearTimeout_def resolve_def close_result_def Let_def parseOutput_def parseError_def
        OUTPUT_START_def ERROR_START_def trim_def is_space_def)
  from runner_status_cases[OF h] have
    "\<not> deadline_before_close ?evs \<and> closed_with_zero ?evs \<and>
     reported_error True ?evs = None"
    by simp
  with h show ?thesis by simp
qed

text \<open>
  The timer becomes due just before the \<^verbatim>\<open>'close'\<close> event of a process that has exited by
  itself with code zero and an empty standard error: the status is \<open>timeout\<close>, not
  \<open>success\<close>.
\<close>

theorem runner_status_counterexample:
  "runPythonProcess [TimerFired, Close (Some 0)] 30 True = Some (timeout_result 30) \<and>
   status (timeout_result 30) = Timeout \<and>
   closed_with_zero [TimerFired, Close (Some 0)] \<and>
   parseError (stderr_text [TimerFired]) = None"
  by (simp add: runPythonProcess_def run_events_def runner_init_def on_close_def
      clearTimeout_def resolve_def timeout_result_def closed_with_zero_def parseError_def
      ERROR_START_def trim_def Let_def)

text \<open>
  Claim C10, amended. Take a call that is settled by a \<^verbatim>\<open>'close'\<close> event with exit code
  zero, where the text the process wrote to standard error before that event contains a
  character that is not white space and does not contain both error sentinels. If the
  deadline timer has not become due before that event and output capture is enabled, the
  status is \<open>error\<close> and the error field is that text trimmed. If the timer has not
  become due before it and output capture is disabled, the text is not collected: the
  status is \<open>success\<close>, the error field \<^verbatim>\<open>null\<close> and the output empty. If the timer has
  become due before that event, the status is \<open>timeout\<close> and the error field
  \<open>Execution timed out\<close>, with or without capture.
\<close>

theorem stderr_alone_is_error:
  assumes "first_settling evs = Some (pre, Close (Some 0))"
    and "\<exists>c\<in>set (stderr_text pre). \<not> is_space c"
    and "\<not> (sublist ERROR_START (stderr_text pre) \<and> sublist ERROR_END (stderr_text pre))"
  shows "(TimerFired \<notin> set pre \<longrightarrow>
            map_option status (runPythonProcess evs timeout True) = Some Error \<and>
            map_option error (runPythonProcess evs timeout True) =
              Some (Some (trim (stderr_text pre))) \<and>
            runPythonProcess evs timeout False =
              Some \<lparr>code = [], output_text = [], error = None, execution_time = 0,
                    status = Success\<rparr>) \<and>
         (TimerFired \<in> set pre \<longrightarrow>
            runPythonProcess evs timeout cap =
              Some \<lparr>code = [], output_text = [], error = Some ''Execution timed out'',
                    execution_time = timeout * 1000, status = Timeout\<rparr>)"
proof -
  from assms(2) have ne: "trim (stderr_text pre) \<noteq> []" by (simp add: trim_empty_iff)
  with parseError_absent[OF assms(3)] have
    pe: "parseError (stderr_text pre) = Some (trim (stderr_text pre))"
    by simp
  have captured: "map_option status (runPythonProcess evs timeout True) = Some Error \<and>
      map_option error (runPythonProcess evs timeout True) =
        Some (Some (trim (stderr_text pre)))"
    if "TimerFired \<notin> set pre"
  proof -
    from assms(1) that have
      "runPythonProcess evs timeout True =
         Some (close_result (stdout_text pre) (stderr_text pre) (Some 0))"
      by (simp add: runPythonProcess_eq)
    with pe ne show ?thesis by (simp add: close_result_def Let_def)
  qed
  have empty: "parseOutput [] = []" "parseError [] = None"
    by (simp_all add: parseOutput_def parseError_def OUTPUT_START_def ERROR_START_def trim_def)
  have uncaptured: "runPythonProcess evs timeout False =
      Some \<lparr>code = [], output_text = [], error = None, execution_time = 0,
            status = Success\<rparr>"
    if "TimerFired \<notin> set pre"
  proof -
    from assms(1) that have
      "runPythonProcess evs timeout False = Some (close_result [] [] (Some 0))"
      by (simp add: runPythonProcess_eq)
    with empty show ?thesis by (simp add: close_result_def Let_def)
  qed
  have timed: "runPythonProcess evs timeout cap =
      Some \<lparr>code = [], output_text = [], error = Some ''Execution timed out'',
            execution_time = timeout * 1000, status = Timeout\<rparr>"
    if "TimerFired \<in> set pre"
    using assms(1) that by (simp add: runPythonProcess_eq timeout_result_def)
  from captured uncaptured timed show ?thesis by blast
qed

theorem stderr_alone_is_error_witness:
  "first_settling [StderrData ''DeprecationWarning: x '', Close (Some 0)] =
     Some ([StderrData ''DeprecationWarning: x ''], Close (Some 0)) \<and>
   (\<exists>c\<in>set (stderr_text [StderrData ''DeprecationWarning: x '']). \<not> is_space c) \<and>
   \<not> (sublist ERROR_START (stderr_text [StderrData ''DeprecationWarning: x '']) \<and>
      sublist ERROR_END (stderr_text [StderrData ''DeprecationWarning: x ''])) \<and>
   TimerFired \<notin> set [StderrData ''DeprecationWarning: x ''] \<and>
   map_option status
     (runPythonProcess [StderrData ''DeprecationWarning: x '', Close (Some 0)] 30 True) =
     Some Error \<and>
   map_option error
     (runPythonProcess [StderrData ''DeprecationWarning: x '', Close (Some 0)] 30 True) =
     Some (Some ''DeprecationWarning: x'') \<and>
   map_option status
     (runPythonProcess [StderrData ''DeprecationWarning: x '', Close (Some 0)] 30 False) =
     Some Success \<and>
   first_settling [StderrData ''DeprecationWarning: x '', TimerFired, Close (Some 0)] =
     Some ([StderrData ''DeprecationWarning: x '', TimerFired], Close (Some 0)) \<and>
   TimerFired \<in> set [StderrData ''DeprecationWarning: x '', TimerFired] \<and>
   map_option status
     (runPythonProcess [StderrData ''DeprecationWarning: x '', TimerFired, Close (Some 0)]
        30 True) = Some Timeout"
proof -
  let ?pre = "[StderrData ''DeprecationWarning: x '']"
  let ?evs = "[StderrData ''DeprecationWarning: x '', Close (Some 0)]"
  let ?pre' = "[StderrData ''DeprecationWarning: x '', TimerFired]"
  let ?evs' = "[StderrData ''DeprecationWarning: x '', TimerFired, Close (Some 0)]"
  note main = stderr_alone_is_error
  have h1: "first_settling ?evs = Some (?pre, Close (Some 0))" by simp
  have h2: "\<exists>c\<in>set (stderr_text ?pre). \<not> is_space c" by (simp add: is_space_def)
  have h3: "\<not> (sublist ERROR_START (stderr_text ?pre) \<and> sublist ERROR_END (stderr_text ?pre))"
    by (simp add: sublist_iff_indexOf ERROR_START_def)
  have h4: "TimerFired \<notin> set ?pre" by simp
  have t: "trim (stderr_text ?pre) = ''DeprecationWarning: x''"
    by (simp add: trim_def is_space_def)
  from main[OF h1 h2 h3, of 30 True, THEN conjunct1] h4 have
    "map_option status (runPythonProcess ?evs 30 True) = Some Error \<and>
     map_option error (runPythonProcess ?evs 30 True) =
       Some (Some (trim (stderr_text ?pre))) \<and>
     runPythonProcess ?evs 30 False =
       Some \<lparr>code = [], output_text = [], error = None, execution_time = 0,
             status = Success\<rparr>"
    by (rule mp)
  with t have r1:
    "map_option status (runPythonProcess ?evs 30 True) = Some Error \<and>
     map_option error (runPythonProcess ?evs 30 True) = Some (Some ''DeprecationWarning: x'') \<and>
     map_option status (runPythonProcess ?evs 30 False) = Some Success"
    by simp
  have g1: "first_settling ?evs' = Some (?pre', Close (Some 0))" by simp
  have g2: "\<exists>c\<in>set (stderr_text ?pre'). \<not> is_space c" by (simp add: is_space_def)
  have g3: "\<not> (sublist ERROR_START (stderr_text ?pre') \<and> sublist ERROR_END (stderr_text ?pre'))"
    by (simp add: sublist_iff_indexOf ERROR_START_def)
  have g4: "TimerFired \<in> set ?pre'" by simp
  from main[OF g1 g2 g3, of 30 True, THEN conjunct2] g4 have
    "runPythonProcess ?evs' 30 True =
       Some \<lparr>code = [], output_text = [], error = Some ''Execution timed out'',
             execution_time = 30 * 1000, status = Timeout\<rparr>"
    by (rule mp)
  then have r2: "map_option status (runPythonProcess ?evs' 30 True) = Some Timeout" by simp
  from h1 h2 h3 h4 r1 g1 g4 r2 show ?thesis by blast
qed

text \<open>
  Two executions whose process exits with code zero and writes a warning to standard
  error, with no error sentinel. Without output capture the child writes to the inherited
  standard error, the runner collects nothing, and the result is \<open>success\<close> with no
  error. With capture, when the timer becomes due between the exit of the process and its
  \<^verbatim>\<open>'close'\<close> event, the result is \<open>timeout\<close> with the error \<open>Execution timed out\<close>.
\<close>

theorem stderr_uncaptured_counterexample:
  "runPythonProcess [StderrData ''DeprecationWarning: x '', Close (Some 0)] 30 False =
     Some \<lparr>code = [], output_text = [], error = None, execution_time = 0,
           status = Success\<rparr> \<and>
   runPythonProcess [StderrData ''DeprecationWarning: x '', TimerFired, Close (Some 0)] 30 True =
     Some \<lparr>code = [], output_text = [], error = Some ''Execution timed out'',
           execution_time = 30000, status = Timeout\<rparr>"
  by (simp add: runPythonProcess_def run_events_def runner_init_def on_close_def
      clearTimeout_def resolve_def close_result_def timeout_result_def Let_def parseOutput_def
      parseError_def OUTPUT_START_def ERROR_START_def trim_def)

subsection \<open>\<^verbatim>\<open>executePythonCode\<close>\<close>

text \<open>
  Claim C3, amended. When the directory and the script file are created, and the deadline
  timer becomes due before the \<^verbatim>\<open>'close'\<close> event that settles the call (with no
  \<^verbatim>\<open>'error'\<close> event before it), the runner resolves with status \<open>timeout\<close>, empty output,
  the error text \<open>Execution timed out\<close> and the configured timeout in milliseconds as
  its duration; the result \<^verbatim>\<open>executePythonCode\<close> returns keeps status, output and error,
  but its \<open>execution_time\<close> is the measured difference of the two clock readings around
  the runner, which replaces the runner's value.
\<close>

theorem timeout_result_returned:
  assumes "mkdir_exit env = MkdirClose (Some 0)" and "writeFile_error env = None"
    and "deadline_before_close (proc_events env)"
  shows "runPythonProcess (proc_events env) timeout cap =
           Some \<lparr>code = [], output_text = [], error = Some ''Execution timed out'',
                 execution_time = timeout * 1000, status = Timeout\<rparr> \<and>
         fst (executePythonCode env src timeout cap) =
           Returned \<lparr>code = src, output_text = [], error = Some ''Execution timed out'',
                     execution_time = now_end env - now_start env, status = Timeout\<rparr>"
proof -
  from assms(3) obtain pre c where
    fs: "first_settling (proc_events env) = Some (pre, Close c)" and t: "TimerFired \<in> set pre"
    by (auto simp: deadline_before_close_def split: option.splits prod.splits
        proc_event.splits)
  then have run: "runPythonProcess (proc_events env) timeout cap = Some (timeout_result timeout)"
    by (simp add: runPythonProcess_eq)
  then show ?thesis
    using assms(1,2)
    by (simp add: executePythonCode_def try_block_def Let_def timeout_result_def)
qed

theorem timeout_result_returned_witness:
  "mkdir_exit (sample_env\<lparr>proc_events := [TimerFired, Close None],
      now_end := 1700000001011\<rparr>) = MkdirClose (Some 0) \<and>
   writeFile_error (sample_env\<lparr>proc_events := [TimerFired, Close None],
      now_end := 1700000001011\<rparr>) = None \<and>
   deadline_before_close (proc_events (sample_env\<lparr>proc_events := [TimerFired, Close None],
      now_end := 1700000001011\<rparr>)) \<and>
   fst (executePythonCode
          (sample_env\<lparr>proc_events := [TimerFired, Close None], now_end := 1700000001011\<rparr>)
          ''while True: pass'' 1 True) =
     Returned \<lparr>code = ''while True: pass'', output_text = [],
               error = Some ''Execution timed out'', execution_time = 1007, status = Timeout\<rparr>"
proof -
  let ?env = "sample_env\<lparr>proc_events := [TimerFired, Close None], now_end := 1700000001011\<rparr>"
  have h1: "mkdir_exit ?env = MkdirClose (Some 0)" by (simp add: sample_env_def)
  have h2: "writeFile_error ?env = None" by (simp add: sample_env_def)
  have h3: "deadline_before_close (proc_events ?env)"
    by (simp add: deadline_before_close_def)
  have n: "now_end ?env - now_start ?env = 1007" by (simp add: sample_env_def)
  from timeout_result_returned[OF h1 h2 h3, of 1 True "''while True: pass''"] n have
    "fst (executePythonCode ?env ''while True: pass'' 1 True) =
       Returned \<lparr>code = ''while True: pass'', output_text = [],
                 error = Some ''Execution timed out'', execution_time = 1007,
                 status = Timeout\<rparr>"
    by simp
  with h1 h2 h3 show ?thesis by blast
qed

text \<open>
  A timeout of one second, the kill taking effect 1007 ms after the first clock reading:
  the duration returned is 1007, not 1000.
\<close>

theorem timeout_duration_counterexample:
  "deadline_before_close [TimerFired, Close None] \<and>
   fst (executePythonCode
          (sample_env\<lparr>proc_events := [TimerFired, Close None], now_end := 1700000001011\<rparr>)
          ''while True: pass'' 1 True) =
     Returned \<lparr>code = ''while True: pass'', output_text = [],
               error = Some ''Execution timed out'', execution_time = 1007, status = Timeout\<rparr> \<and>
   (1007 :: int) \<noteq> 1 * 1000"
  by (simp add: deadline_before_close_def executePythonCode_def try_block_def Let_def
      sample_env_def runPythonProcess_def run_events_def runner_init_def on_close_def
      clearTimeout_def resolve_def timeout_result_def)

lemma finally_block_shape:
  "\<exists>post. finally_block env = Unlink (tempFile (now_name env)) # post \<and>
     (\<forall>e\<in>set post. \<exists>m. e = ConsoleError m)"
  by (cases "unlink_error env") (simp_all add: finally_block_def)

lemma try_block_write_rejected:
  "mkdir_exit env = MkdirClose (Some 0) \<Longrightarrow> writeFile_error env = Some m \<Longrightarrow>
     try_block env src timeout cap =
       (Thrown m,
        [SpawnMkdir tempDir, WriteFile (tempFile (now_name env)) (wrapCodeWithSafety src)])"
  by (simp add: try_block_def Let_def)

lemma try_block_runner_resolved:
  "mkdir_exit env = MkdirClose (Some 0) \<Longrightarrow> writeFile_error env = None \<Longrightarrow>
   runPythonProcess (proc_events env) timeout cap = Some result \<Longrightarrow>
     try_block env src timeout cap =
       (Returned (result\<lparr>code := src, execution_time := now_end env - now_start env\<rparr>),
        [SpawnMkdir tempDir, WriteFile (tempFile (now_name env)) (wrapCodeWithSafety src),
         SpawnPython (tempFile (now_name env))])"
  by (simp add: try_block_def Let_def)

lemma try_block_runner_pending:
  "mkdir_exit env = MkdirClose (Some 0) \<Longrightarrow> writeFile_error env = None \<Longrightarrow>
   runPythonProcess (proc_events env) timeout cap = None \<Longrightarrow>
     try_block env src timeout cap =
       (Pending,
        [SpawnMkdir tempDir, WriteFile (tempFile (now_name env)) (wrapCodeWithSafety src),
         SpawnPython (tempFile (now_name env))])"
  by (simp add: try_block_def Let_def)

lemma try_block_mkdir_failed:
  "mkdir_exit env = MkdirClose c \<Longrightarrow> c \<noteq> Some 0 \<Longrightarrow>
     try_block env src timeout cap =
       (Thrown (''Failed to create directory: '' @ show_exit_code c), [SpawnMkdir tempDir])"
  by (simp add: try_block_def)

lemma try_block_mkdir_no_close:
  "mkdir_exit env = MkdirNoClose \<Longrightarrow>
     try_block env src timeout cap = (Pending, [SpawnMkdir tempDir])"
  by (simp add: try_block_def)

text \<open>
  The call stays pending exactly when \<^verbatim>\<open>mkdir\<close> delivers no \<^verbatim>\<open>'close'\<close> event, or the runner
  is reached and never settles.
\<close>

lemma executePythonCode_pending_iff:
  "fst (executePythonCode env src timeout cap) = Pending \<longleftrightarrow>
     mkdir_exit env = MkdirNoClose \<or>
     (mkdir_exit env = MkdirClose (Some 0) \<and> writeFile_error env = None \<and>
      \<not> list_ex settling (proc_events env))"
  using runPythonProcess_settles_iff[of "proc_events env" timeout cap]
  by (auto simp: executePythonCode_def try_block_def Let_def
      split: option.splits mkdir_outcome.splits)

text \<open>
  Claim C7. Take a call of \<^verbatim>\<open>executePythonCode\<close> in which \<^verbatim>\<open>mkdir\<close> closes with code zero,
  so that the temporary script file is written. If \<^verbatim>\<open>writeFile\<close> throws, or the runner's
  promise is settled (by the \<^verbatim>\<open>'close'\<close> event of a normal completion, of a runtime error or
  of a timeout kill, or by an \<^verbatim>\<open>'error'\<close> event), the call returns a result and does not
  throw: the error result of the exception, or the runner's result with its status; and its
  effects are the write of the script file, then the \<^verbatim>\<open>unlink\<close> of that same file, not
  attempted before, then nothing but console messages. Only when \<^verbatim>\<open>writeFile\<close> succeeds and
  the runner's promise is never settled does the call not return. On the paths that do not
  reach the creation of the file: when \<^verbatim>\<open>mkdir\<close> closes with another code the call returns
  an error result after an \<^verbatim>\<open>unlink\<close> as well, and when \<^verbatim>\<open>mkdir\<close> delivers no \<^verbatim>\<open>'close'\<close> event
  the call never returns and nothing has been written.
\<close>

theorem cleanup_on_every_exit_path:
  "(mkdir_exit env = MkdirClose (Some 0) \<and>
    (writeFile_error env \<noteq> None \<or> list_ex settling (proc_events env)) \<longrightarrow>
      (\<exists>r pre post.
         executePythonCode env src timeout cap =
           (Returned r, pre @ Unlink (tempFile (now_name env)) # post) \<and>
         WriteFile (tempFile (now_name env)) (wrapCodeWithSafety src) \<in> set pre \<and>
         Unlink (tempFile (now_name env)) \<notin> set pre \<and>
         (\<forall>e\<in>set post. \<exists>m. e = ConsoleError m) \<and>
         (\<forall>m. writeFile_error env = Some m \<longrightarrow> status r = Error \<and> error r = Some m) \<and>
         (writeFile_error env = None \<longrightarrow>
            SpawnPython (tempFile (now_name env)) \<in> set pre \<and>
            map_option status (runPythonProcess (proc_events env) timeout cap) =
              Some (status r)))) \<and>
   (mkdir_exit env = MkdirClose (Some 0) \<and> writeFile_error env = None \<and>
    \<not> list_ex settling (proc_events env) \<longrightarrow>
      fst (executePythonCode env src timeout cap) = Pending) \<and>
   (mkdir_exit env = MkdirClose c \<and> c \<noteq> Some 0 \<longrightarrow>
      (\<exists>r post.
         executePythonCode env src timeout cap =
           (Returned r, SpawnMkdir tempDir # Unlink (tempFile (now_name env)) # post) \<and>
         status r = Error \<and> (\<forall>e\<in>set post. \<exists>m. e = ConsoleError m))) \<and>
   (mkdir_exit env = MkdirNoClose \<longrightarrow>
      executePythonCode env src timeout cap = (Pending, [SpawnMkdir tempDir]))"
proof -
  let ?p = "tempFile (now_name env)"
  let ?w = "wrapCodeWithSafety src"
  from finally_block_shape[of env] obtain post where
    fb: "finally_block env = Unlink ?p # post"
    and post: "\<forall>e\<in>set post. \<exists>m. e = ConsoleError m"
    by blast
  have rejected: "\<exists>r pre post.
      executePythonCode env src timeout cap = (Returned r, pre @ Unlink ?p # post) \<and>
      WriteFile ?p ?w \<in> set pre \<and> Unlink ?p \<notin> set pre \<and>
      (\<forall>e\<in>set post. \<exists>m. e = ConsoleError m) \<and>
      (\<forall>m. writeFile_error env = Some m \<longrightarrow> status r = Error \<and> error r = Some m) \<and>
      (writeFile_error env = None \<longrightarrow>
         SpawnPython ?p \<in> set pre \<and>
         map_option status (runPythonProcess (proc_events env) timeout cap) = Some (status r))"
    if mk: "mkdir_exit env = MkdirClose (Some 0)" and w: "writeFile_error env = Some m" for m
  proof -
    let ?pre = "[SpawnMkdir tempDir, WriteFile ?p ?w]"
    have "executePythonCode env src timeout cap =
        (Returned (catch_block src m), ?pre @ Unlink ?p # post)"
      by (simp add: executePythonCode_def try_block_write_rejected[OF mk w] fb)
    moreover have "WriteFile ?p ?w \<in> set ?pre" "Unlink ?p \<notin> set ?pre" by simp_all
    moreover have "status (catch_block src m) = Error" "error (catch_block src m) = Some m"
      by (simp_all add: catch_block_def)
    ultimately show ?thesis using post w by (intro exI[of _ "catch_block src m"] exI[of _ ?pre] exI[of _ post]) simp
  qed
  have resolved: "\<exists>r pre post.
      executePythonCode env src timeout cap = (Returned r, pre @ Unlink ?p # post) \<and>
      WriteFile ?p ?w \<in> set pre \<and> Unlink ?p \<notin> set pre \<and>
      (\<forall>e\<in>set post. \<exists>m. e = ConsoleError m) \<and>
      (\<forall>m. writeFile_error env = Some m \<longrightarrow> status r = Error \<and> error r = Some m) \<and>
      (writeFile_error env = None \<longrightarrow>
         SpawnPython ?p \<in> set pre \<and>
         map_option status (runPythonProcess (proc_events env) timeout cap) = Some (status r))"
    if mk: "mkdir_exit env = MkdirClose (Some 0)" and w: "writeFile_error env = None"
      and s: "list_ex settling (proc_events env)"
  proof -
    from s runPythonProcess_settles_iff[of "proc_events env" timeout cap] obtain result where
      run: "runPythonProcess (proc_events env) timeout cap = Some result"
      by auto
    let ?r = "result\<lparr>code := src, execution_time := now_end env - now_start env\<rparr>"
    let ?pre = "[SpawnMkdir tempDir, WriteFile ?p ?w, SpawnPython ?p]"
    have "executePythonCode env src timeout cap = (Returned ?r, ?pre @ Unlink ?p # post)"
      by (simp add: executePythonCode_def try_block_runner_resolved[OF mk w run] fb)
    moreover have "WriteFile ?p ?w \<in> set ?pre" "Unlink ?p \<notin> set ?pre"
      "SpawnPython ?p \<in> set ?pre"
      by simp_all
    moreover have "map_option status (runPythonProcess (proc_events env) timeout cap) =
        Some (status ?r)"
      by (simp add: run)
    ultimately show ?thesis using post w by (intro exI[of _ ?r] exI[of _ ?pre] exI[of _ post]) simp
  qed
  have reached: "\<exists>r pre post.
      executePythonCode env src timeout cap = (Returned r, pre @ Unlink ?p # post) \<and>
      WriteFile ?p ?w \<in> set pre \<and> Unlink ?p \<notin> set pre \<and>
      (\<forall>e\<in>set post. \<exists>m. e = ConsoleError m) \<and>
      (\<forall>m. writeFile_error env = Some m \<longrightarrow> status r = Error \<and> error r = Some m) \<and>
      (writeFile_error env = None \<longrightarrow>
         SpawnPython ?p \<in> set pre \<and>
         map_option status (runPythonProcess (proc_events env) timeout cap) = Some (status r))"
    if mk: "mkdir_exit env = MkdirClose (Some 0)"
      and or: "writeFile_error env \<noteq> None \<or> list_ex settling (proc_events env)"
  proof (cases "writeFile_error env")
    case None
    with or have "list_ex settling (proc_events env)" by simp
    from resolved[OF mk None this] show ?thesis .
  next
    case (Some m)
    from rejected[OF mk Some] show ?thesis .
  qed
  have pending: "fst (executePythonCode env src timeout cap) = Pending"
    if "mkdir_exit env = MkdirClose (Some 0)" "writeFile_error env = None"
      "\<not> list_ex settling (proc_events env)"
    using that by (simp add: executePythonCode_pending_iff)
  have failed: "\<exists>r post.
      executePythonCode env src timeout cap =
        (Returned r, SpawnMkdir tempDir # Unlink ?p # post) \<and>
      status r = Error \<and> (\<forall>e\<in>set post. \<exists>m. e = ConsoleError m)"
    if mk: "mkdir_exit env = MkdirClose c" and c: "c \<noteq> Some 0"
  proof -
    have "executePythonCode env src timeout cap =
        (Returned (catch_block src (''Failed to create directory: '' @ show_exit_code c)),
         SpawnMkdir tempDir # Unlink ?p # post)"
      by (simp add: executePythonCode_def try_block_mkdir_failed[OF mk c] fb)
    moreover have
      "status (catch_block src (''Failed to create directory: '' @ show_exit_code c)) = Error"
      by (simp add: catch_block_def)
    ultimately show ?thesis using post by blast
  qed
  have no_close: "executePythonCode env src timeout cap = (Pending, [SpawnMkdir tempDir])"
    if mk: "mkdir_exit env = MkdirNoClose"
    by (simp add: executePythonCode_def try_block_mkdir_no_close[OF mk])
  from reached pending failed no_close show ?thesis by blast
qed

theorem cleanup_on_every_exit_path_witness:
  "(mkdir_exit sample_env = MkdirClose (Some 0) \<and>
    list_ex settling (proc_events sample_env) \<and>
    executePythonCode sample_env ''print(1)'' 30 True =
      (Returned \<lparr>code = ''print(1)'', output_text = [], error = None, execution_time = 38,
                 status = Success\<rparr>,
       [SpawnMkdir tempDir,
        WriteFile (tempFile 1700000000000) (wrapCodeWithSafety ''print(1)''),
        SpawnPython (tempFile 1700000000000),
        Unlink (tempFile 1700000000000)]) \<and>
    Unlink (tempFile 1700000000000)
      \<in> set (snd (executePythonCode sample_env ''print(1)'' 30 True))) \<and>
   (mkdir_exit (sample_env\<lparr>proc_events := [StderrData ''ZeroDivisionError'', Close (Some 0)]\<rparr>)
      = MkdirClose (Some 0) \<and>
    list_ex settling
      (proc_events (sample_env\<lparr>proc_events := [StderrData ''ZeroDivisionError'', Close (Some 0)]\<rparr>)) \<and>
    executePythonCode
      (sample_env\<lparr>proc_events := [StderrData ''ZeroDivisionError'', Close (Some 0)]\<rparr>)
      ''print(1/0)'' 30 True =
      (Returned \<lparr>code = ''print(1/0)'', output_text = [], error = Some ''ZeroDivisionError'',
                 execution_time = 38, status = Error\<rparr>,
       [SpawnMkdir tempDir,
        WriteFile (tempFile 1700000000000) (wrapCodeWithSafety ''print(1/0)''),
        SpawnPython (tempFile 1700000000000),
        Unlink (tempFile 1700000000000)]) \<and>
    Unlink (tempFile 1700000000000)
      \<in> set (snd (executePythonCode
                    (sample_env\<lparr>proc_events :=
                       [StderrData ''ZeroDivisionError'', Close (Some 0)]\<rparr>)
                    ''print(1/0)'' 30 True))) \<and>
   (mkdir_exit (sample_env\<lparr>proc_events := [TimerFired, Close None]\<rparr>) = MkdirClose (Some 0) \<and>
    list_ex settling (proc_events (sample_env\<lparr>proc_events := [TimerFired, Close None]\<rparr>)) \<and>
    executePythonCode (sample_env\<lparr>proc_events := [TimerFired, Close None]\<rparr>)
      ''while True: pass'' 30 True =
      (Returned \<lparr>code = ''while True: pass'', output_text = [],
                 error = Some ''Execution timed out'', execution_time = 38, status = Timeout\<rparr>,
       [SpawnMkdir tempDir,
        WriteFile (tempFile 1700000000000) (wrapCodeWithSafety ''while True: pass''),
        SpawnPython (tempFile 1700000000000),
        Unlink (tempFile 1700000000000)]) \<and>
    Unlink (tempFile 1700000000000)
      \<in> set (snd (executePythonCode (sample_env\<lparr>proc_events := [TimerFired, Close None]\<rparr>)
                    ''while True: pass'' 30 True))) \<and>
   (mkdir_exit (sample_env\<lparr>writeFile_error := Some ''ENOSPC: no space left on device''\<rparr>)
      = MkdirClose (Some 0) \<and>
    writeFile_error (sample_env\<lparr>writeFile_error := Some ''ENOSPC: no space left on device''\<rparr>)
      = Some ''ENOSPC: no space left on device'' \<and>
    executePythonCode
      (sample_env\<lparr>writeFile_error := Some ''ENOSPC: no space left on device''\<rparr>)
      ''print(1)'' 30 True =
      (Returned \<lparr>code = ''print(1)'', output_text = [],
                 error = Some ''ENOSPC: no space left on device'', execution_time = 0,
                 status = Error\<rparr>,
       [SpawnMkdir tempDir,
        WriteFile (tempFile 1700000000000) (wrapCodeWithSafety ''print(1)''),
        Unlink (tempFile 1700000000000)]) \<and>
    Unlink (tempFile 1700000000000)
      \<in> set (snd (executePythonCode
                    (sample_env\<lparr>writeFile_error := Some ''ENOSPC: no space left on device''\<rparr>)
                    ''print(1)'' 30 True))) \<and>
   (mkdir_exit (sample_env\<lparr>proc_events := [StdoutData ''1'']\<rparr>) = MkdirClose (Some 0) \<and>
    writeFile_error (sample_env\<lparr>proc_events := [StdoutData ''1'']\<rparr>) = None \<and>
    \<not> list_ex settling (proc_events (sample_env\<lparr>proc_events := [StdoutData ''1'']\<rparr>)) \<and>
    fst (executePythonCode (sample_env\<lparr>proc_events := [StdoutData ''1'']\<rparr>)
           ''print(1)'' 30 True) = Pending) \<and>
   (mkdir_exit (sample_env\<lparr>mkdir_exit := MkdirClose (Some 1)\<rparr>) = MkdirClose (Some 1) \<and>
    Some (1 :: int) \<noteq> Some 0 \<and>
    Unlink (tempFile 1700000000000)
      \<in> set (snd (executePythonCode (sample_env\<lparr>mkdir_exit := MkdirClose (Some 1)\<rparr>)
                    ''print(1)'' 30 True))) \<and>
   (mkdir_exit (sample_env\<lparr>mkdir_exit := MkdirNoClose\<rparr>) = MkdirNoClose \<and>
    executePythonCode (sample_env\<lparr>mkdir_exit := MkdirNoClose\<rparr>) ''print(1)'' 30 True =
      (Pending, [SpawnMkdir tempDir]))"
proof -
  note main = cleanup_on_every_exit_path
  let ?p = "tempFile 1700000000000"
  let ?ok = "sample_env"
  let ?err = "sample_env\<lparr>proc_events := [StderrData ''ZeroDivisionError'', Close (Some 0)]\<rparr>"
  let ?kill = "sample_env\<lparr>proc_events := [TimerFired, Close None]\<rparr>"
  let ?full = "sample_env\<lparr>writeFile_error := Some ''ENOSPC: no space left on device''\<rparr>"
  let ?hang = "sample_env\<lparr>proc_events := [StdoutData ''1'']\<rparr>"
  let ?fail = "sample_env\<lparr>mkdir_exit := MkdirClose (Some 1)\<rparr>"
  let ?none = "sample_env\<lparr>mkdir_exit := MkdirNoClose\<rparr>"
  have name: "now_name ?ok = 1700000000000" "now_name ?err = 1700000000000"
    "now_name ?kill = 1700000000000" "now_name ?full = 1700000000000"
    "now_name ?fail = 1700000000000"
    by (simp_all add: sample_env_def)
  have empty: "parseOutput [] = []" "parseError [] = None"
    by (simp_all add: parseOutput_def parseError_def OUTPUT_START_def ERROR_START_def trim_def)
  have unlinked: "Unlink ?p \<in> set (snd (executePythonCode env src 30 True))"
    if "\<exists>r pre post.
         executePythonCode env src 30 True = (Returned r, pre @ Unlink ?p # post) \<and>
         WriteFile ?p (wrapCodeWithSafety src) \<in> set pre \<and> Unlink ?p \<notin> set pre \<and>
         (\<forall>e\<in>set post. \<exists>m. e = ConsoleError m) \<and>
         (\<forall>m. writeFile_error env = Some m \<longrightarrow> status r = Error \<and> error r = Some m) \<and>
         (writeFile_error env = None \<longrightarrow>
            SpawnPython ?p \<in> set pre \<and>
            map_option status (runPythonProcess (proc_events env) 30 True) = Some (status r))"
    for env src
    using that by auto

  have a1: "mkdir_exit ?ok = MkdirClose (Some 0)" by (simp add: sample_env_def)
  have a2: "list_ex settling (proc_events ?ok)" by (simp add: sample_env_def)
  have a3: "executePythonCode ?ok ''print(1)'' 30 True =
      (Returned \<lparr>code = ''print(1)'', output_text = [], error = None, execution_time = 38,
                 status = Success\<rparr>,
       [SpawnMkdir tempDir, WriteFile ?p (wrapCodeWithSafety ''print(1)''), SpawnPython ?p,
        Unlink ?p])"
    by (simp add: executePythonCode_def try_block_def Let_def sample_env_def
        runPythonProcess_eq close_result_def empty finally_block_def)
  from a1 a2 have "mkdir_exit ?ok = MkdirClose (Some 0) \<and>
      (writeFile_error ?ok \<noteq> None \<or> list_ex settling (proc_events ?ok))"
    by simp
  with main[of ?ok "''print(1)''" 30 True, THEN conjunct1] have
    a4: "Unlink ?p \<in> set (snd (executePythonCode ?ok ''print(1)'' 30 True))"
    unfolding name by (intro unlinked) (rule mp)

  have b1: "mkdir_exit ?err = MkdirClose (Some 0)" by (simp add: sample_env_def)
  have b2: "list_ex settling (proc_events ?err)" by simp
  have pe: "parseError ''ZeroDivisionError'' = Some ''ZeroDivisionError''"
    by (simp add: parseError_def ERROR_START_def trim_def is_space_def)
  have b3: "executePythonCode ?err ''print(1/0)'' 30 True =
      (Returned \<lparr>code = ''print(1/0)'', output_text = [], error = Some ''ZeroDivisionError'',
                 execution_time = 38, status = Error\<rparr>,
       [SpawnMkdir tempDir, WriteFile ?p (wrapCodeWithSafety ''print(1/0)''), SpawnPython ?p,
        Unlink ?p])"
    by (simp add: executePythonCode_def try_block_def Let_def sample_env_def
        runPythonProcess_eq close_result_def empty pe finally_block_def)
  from b1 b2 have "mkdir_exit ?err = MkdirClose (Some 0) \<and>
      (writeFile_error ?err \<noteq> None \<or> list_ex settling (proc_events ?err))"
    by simp
  with main[of ?err "''print(1/0)''" 30 True, THEN conjunct1] have
    b4: "Unlink ?p \<in> set (snd (executePythonCode ?err ''print(1/0)'' 30 True))"
    unfolding name by (intro unlinked) (rule mp)

  have c1: "mkdir_exit ?kill = MkdirClose (Some 0)" by (simp add: sample_env_def)
  have c2: "list_ex settling (proc_events ?kill)" by simp
  have c3: "executePythonCode ?kill ''while True: pass'' 30 True =
      (Returned \<lparr>code = ''while True: pass'', output_text = [],
                 error = Some ''Execution timed out'', execution_time = 38, status = Timeout\<rparr>,
       [SpawnMkdir tempDir, WriteFile ?p (wrapCodeWithSafety ''while True: pass''),
        SpawnPython ?p, Unlink ?p])"
    by (simp add: executePythonCode_def try_block_def Let_def sample_env_def
        runPythonProcess_eq timeout_result_def finally_block_def)
  from c1 c2 have "mkdir_exit ?kill = MkdirClose (Some 0) \<and>
      (writeFile_error ?kill \<noteq> None \<or> list_ex settling (proc_events ?kill))"
    by simp
  with main[of ?kill "''while True: pass''" 30 True, THEN conjunct1] have
    c4: "Unlink ?p \<in> set (snd (executePythonCode ?kill ''while True: pass'' 30 True))"
    unfolding name by (intro unlinked) (rule mp)

  have d1: "mkdir_exit ?full = MkdirClose (Some 0)" by (simp add: sample_env_def)
  have d2: "writeFile_error ?full = Some ''ENOSPC: no space left on device''" by simp
  have d3: "executePythonCode ?full ''print(1)'' 30 True =
      (Returned \<lparr>code = ''print(1)'', output_text = [],
                 error = Some ''ENOSPC: no space left on device'', execution_time = 0,
                 status = Error\<rparr>,
       [SpawnMkdir tempDir, WriteFile ?p (wrapCodeWithSafety ''print(1)''), Unlink ?p])"
    by (simp add: executePythonCode_def try_block_def Let_def sample_env_def catch_block_def
        finally_block_def)
  from d1 d2 have "mkdir_exit ?full = MkdirClose (Some 0) \<and>
      (writeFile_error ?full \<noteq> None \<or> list_ex settling (proc_events ?full))"
    by simp
  with main[of ?full "''print(1)''" 30 True, THEN conjunct1] have
    d4: "Unlink ?p \<in> set (snd (executePythonCode ?full ''print(1)'' 30 True))"
    unfolding name by (intro unlinked) (rule mp)

  have e1: "mkdir_exit ?hang = MkdirClose (Some 0)" by (simp add: sample_env_def)
  have e2: "writeFile_error ?hang = None" by (simp add: sample_env_def)
  have e3: "\<not> list_ex settling (proc_events ?hang)" by simp
  from e1 e2 e3 have "mkdir_exit ?hang = MkdirClose (Some 0) \<and> writeFile_error ?hang = None \<and>
      \<not> list_ex settling (proc_events ?hang)"
    by (intro conjI)
  with main[of ?hang "''print(1)''" 30 True, THEN conjunct2, THEN conjunct1] have
    e4: "fst (executePythonCode ?hang ''print(1)'' 30 True) = Pending"
    by (rule mp)

  have f1: "mkdir_exit ?fail = MkdirClose (Some 1)" by simp
  have f2: "Some (1 :: int) \<noteq> Some 0" by simp
  from f1 f2 have "mkdir_exit ?fail = MkdirClose (Some 1) \<and> Some (1 :: int) \<noteq> Some 0"
    by (rule conjI)
  with main[of ?fail _ _ _ "Some 1", THEN conjunct2, THEN conjunct2, THEN conjunct1] have
    "\<exists>r post.
       executePythonCode ?fail ''print(1)'' 30 True =
         (Returned r, SpawnMkdir tempDir # Unlink (tempFile (now_name ?fail)) # post) \<and>
       status r = Error \<and> (\<forall>e\<in>set post. \<exists>m. e = ConsoleError m)"
    by (rule mp)
  then have f3: "Unlink ?p \<in> set (snd (executePythonCode ?fail ''print(1)'' 30 True))"
    unfolding name by auto

  have g1: "mkdir_exit ?none = MkdirNoClose" by simp
  with main[of ?none "''print(1)''" 30 True, THEN conjunct2, THEN conjunct2, THEN conjunct2]
  have g2: "executePythonCode ?none ''print(1)'' 30 True = (Pending, [SpawnMkdir tempDir])"
    by (rule mp)

  from a1 a2 a3 a4 b1 b2 b3 b4 c1 c2 c3 c4 d1 d2 d3 d4 e1 e2 e3 e4 f1 f2 f3 g1 g2
  show ?thesis by (intro conjI)
qed

subsection \<open>\<^verbatim>\<open>execute\<close>\<close>

lemma logExecution_settled:
  "logging_settles env \<Longrightarrow> fst (logExecution env src r) = Returned ()"
  by (simp add: logExecution_def log_try_block_def logging_settles_def
      split: call_outcome.splits)

lemma logExecution_unsettled:
  "\<not> logging_settles env \<Longrightarrow> fst (logExecution env src r) = Pending"
  by (simp add: logExecution_def log_try_block_def logging_settles_def
      split: call_outcome.splits)

lemma logExecution_silent_on_success:
  "logging_settles env \<Longrightarrow> logging_rejection env = None \<Longrightarrow>
     snd (logExecution env src r) =
       [UpsertUser,
        CreateCodeExecution src (output_text r) (error r) (status r) (execution_time r)]"
  by (simp add: logExecution_def log_try_block_def logging_settles_def logging_rejection_def
      split: call_outcome.splits)

lemma logExecution_reports_failure:
  "logging_rejection env = Some m \<Longrightarrow>
     last (snd (logExecution env src r)) =
       ConsoleError (''Failed to log code execution: '' @ m)"
  by (simp add: logExecution_def log_try_block_def logging_rejection_def
      split: call_outcome.splits)

text \<open>
  How \<^verbatim>\<open>execute\<close> ends, and what it has done when it ends: after the two checks it ends as
  \<^verbatim>\<open>executePythonCode\<close> does, and where that returns a result it ends as the logger does,
  with the effects of both.
\<close>

lemma execute_eq:
  "execute env ps =
     (case p_code ps of
        None \<Rightarrow> (Thrown ''Missing required parameters: code'', [])
      | Some src \<Rightarrow>
          if containsUnsafeOperations src
          then (Thrown ''Code contains potentially unsafe operations'', [])
          else
            (case executePythonCode env src
                    (case p_timeout ps of None \<Rightarrow> 30 | Some t \<Rightarrow> t)
                    (case p_capture_output ps of None \<Rightarrow> True | Some b \<Rightarrow> b) of
               (Returned executionResult, effs) \<Rightarrow>
                 (if logging_settles env then
                    Returned
                      \<lparr>success = (status executionResult = Success),
                       data = executionResult,
                       error_message =
                         (if status executionResult = Error
                          then (if error executionResult = Some [] then None
                                else error executionResult)
                          else None),
                       executionTime = now_measure_end env - now_measure_start env\<rparr>
                  else Pending,
                  effs @ snd (logExecution env src executionResult))
             | (Thrown message, effs) \<Rightarrow> (Thrown message, effs)
             | (Pending, effs) \<Rightarrow> (Pending, effs)))"
proof (cases "p_code ps")
  case None
  then show ?thesis
    by (simp add: execute_def validateParameters_def defined_param_def Let_def)
next
  case (Some src)
  obtain out effs where e: "executePythonCode env src
      (case p_timeout ps of None \<Rightarrow> 30 | Some t \<Rightarrow> t)
      (case p_capture_output ps of None \<Rightarrow> True | Some b \<Rightarrow> b) = (out, effs)"
    by (cases "executePythonCode env src
      (case p_timeout ps of None \<Rightarrow> 30 | Some t \<Rightarrow> t)
      (case p_capture_output ps of None \<Rightarrow> True | Some b \<Rightarrow> b)")
  show ?thesis
  proof (cases out)
    case (Returned r)
    obtain u effs' where l: "logExecution env src r = (u, effs')"
      by (cases "logExecution env src r")
    show ?thesis
    proof (cases "logging_settles env")
      case True
      with logExecution_settled[of env src r] l have "u = Returned ()" by simp
      with Some e Returned l True show ?thesis
        by (simp add: execute_def validateParameters_def defined_param_def Let_def)
    next
      case False
      with logExecution_unsettled[of env src r] l have "u = Pending" by simp
      with Some e Returned l False show ?thesis
        by (simp add: execute_def validateParameters_def defined_param_def Let_def)
    qed
  next
    case (Thrown m)
    with Some e show ?thesis
      by (simp add: execute_def validateParameters_def defined_param_def Let_def)
  next
    case Pending
    with Some e show ?thesis
      by (simp add: execute_def validateParameters_def defined_param_def Let_def)
  qed
qed

lemma try_block_ignores_database:
  "try_block (env\<lparr>upsert_outcome := u, create_outcome := c\<rparr>) src timeout cap =
     try_block env src timeout cap"
  by (simp add: try_block_def Let_def split: option.splits mkdir_outcome.splits)

lemma finally_block_ignores_database:
  "finally_block (env\<lparr>upsert_outcome := u, create_outcome := c\<rparr>) = finally_block env"
  by (simp add: finally_block_def)

lemma executePythonCode_ignores_database:
  "executePythonCode (env\<lparr>upsert_outcome := u, create_outcome := c\<rparr>) src timeout cap =
     executePythonCode env src timeout cap"
  unfolding executePythonCode_def try_block_ignores_database finally_block_ignores_database
  by (rule refl)

lemma logging_settles_resolved:
  "logging_settles (env\<lparr>upsert_outcome := Resolves, create_outcome := Resolves\<rparr>)"
  by (simp add: logging_settles_def)

text \<open>
  Claim C8, amended. When the database calls the logger awaits settle, \<^verbatim>\<open>logExecution\<close>
  returns normally and \<^verbatim>\<open>execute\<close> ends exactly as it does when both calls resolve, with
  the same result: a rejection of either call only adds a message on the console, which is
  silent when both resolve. When one of them never settles, \<^verbatim>\<open>logExecution\<close> never ends,
  and \<^verbatim>\<open>execute\<close>, which awaits it, never returns the result it would otherwise return.
  Whenever \<^verbatim>\<open>execute\<close> returns a result, the last thing it has done is to hand that
  execution result to the logger.
\<close>

theorem logging_failure_not_propagated:
  "(logging_settles env \<longrightarrow>
      fst (execute env ps) =
        fst (execute (env\<lparr>upsert_outcome := Resolves, create_outcome := Resolves\<rparr>) ps) \<and>
      fst (logExecution env src r) = Returned () \<and>
      (case logging_rejection env of
         Some message \<Rightarrow>
           last (snd (logExecution env src r)) =
             ConsoleError (''Failed to log code execution: '' @ message)
       | None \<Rightarrow>
           snd (logExecution env src r) =
             [UpsertUser,
              CreateCodeExecution src (output_text r) (error r) (status r)
                (execution_time r)])) \<and>
   (\<not> logging_settles env \<longrightarrow>
      fst (logExecution env src r) = Pending \<and>
      fst (execute env ps) =
        (case fst (execute (env\<lparr>upsert_outcome := Resolves, create_outcome := Resolves\<rparr>) ps) of
           Returned t \<Rightarrow> Pending
         | other \<Rightarrow> other)) \<and>
   (fst (execute env ps) = Returned t \<longrightarrow>
      (\<exists>src' pre. p_code ps = Some src' \<and>
         snd (execute env ps) = pre @ snd (logExecution env src' (data t))))"
proof -
  let ?good = "env\<lparr>upsert_outcome := Resolves, create_outcome := Resolves\<rparr>"
  have same: "fst (execute env ps) = fst (execute ?good ps)" if "logging_settles env"
    using that logging_settles_resolved[of env]
    by (simp add: execute_eq executePythonCode_ignores_database
        split: option.splits outcome.splits prod.splits)
  have hang: "fst (execute env ps) =
      (case fst (execute ?good ps) of Returned t \<Rightarrow> Pending | other \<Rightarrow> other)"
    if "\<not> logging_settles env"
    using that logging_settles_resolved[of env]
    by (simp add: execute_eq executePythonCode_ignores_database
        split: option.splits outcome.splits prod.splits)
  have channel: "(case logging_rejection env of
         Some message \<Rightarrow>
           last (snd (logExecution env src r)) =
             ConsoleError (''Failed to log code execution: '' @ message)
       | None \<Rightarrow>
           snd (logExecution env src r) =
             [UpsertUser,
              CreateCodeExecution src (output_text r) (error r) (status r)
                (execution_time r)])"
    if "logging_settles env"
  proof (cases "logging_rejection env")
    case None
    with logExecution_silent_on_success[OF that None, of src r] show ?thesis by simp
  next
    case (Some m)
    with logExecution_reports_failure[OF Some, of src r] show ?thesis by simp
  qed
  have handed: "\<exists>src' pre. p_code ps = Some src' \<and>
      snd (execute env ps) = pre @ snd (logExecution env src' (data t))"
    if ret: "fst (execute env ps) = Returned t"
  proof -
    from ret obtain src' where src': "p_code ps = Some src'"
      by (cases "p_code ps") (simp_all add: execute_eq)
    obtain out effs where e: "executePythonCode env src'
        (case p_timeout ps of None \<Rightarrow> 30 | Some t \<Rightarrow> t)
        (case p_capture_output ps of None \<Rightarrow> True | Some b \<Rightarrow> b) = (out, effs)"
      by (cases "executePythonCode env src'
        (case p_timeout ps of None \<Rightarrow> 30 | Some t \<Rightarrow> t)
        (case p_capture_output ps of None \<Rightarrow> True | Some b \<Rightarrow> b)")
    from ret src' e obtain r' where r': "out = Returned r'" and d: "data t = r'"
      and effs: "snd (execute env ps) = effs @ snd (logExecution env src' r')"
      by (cases out; cases "containsUnsafeOperations src'"; cases "logging_settles env")
        (auto simp: execute_eq)
    from src' effs d show ?thesis by blast
  qed
  from same hang channel handed logExecution_settled[of env src r]
    logExecution_unsettled[of env src r]
  show ?thesis by blast
qed

theorem logging_failure_not_propagated_witness:
  "(logging_settles (sample_env\<lparr>create_outcome := Rejects ''Can't reach database server''\<rparr>) \<and>
    fst (execute (sample_env\<lparr>create_outcome := Rejects ''Can't reach database server''\<rparr>)
           (sample_parameters ''print(1)'')) =
      fst (execute sample_env (sample_parameters ''print(1)'')) \<and>
    returned_status (fst (execute sample_env (sample_parameters ''print(1)''))) =
      Some Success \<and>
    last (snd (logExecution
                 (sample_env\<lparr>create_outcome := Rejects ''Can't reach database server''\<rparr>)
                 ''print(1)''
                 \<lparr>code = ''print(1)'', output_text = [], error = None, execution_time = 38,
                    status = Success\<rparr>)) =
      ConsoleError ''Failed to log code execution: Can't reach database server'') \<and>
   (\<not> logging_settles (sample_env\<lparr>upsert_outcome := NeverSettles\<rparr>) \<and>
    fst (execute (sample_env\<lparr>upsert_outcome := NeverSettles\<rparr>)
           (sample_parameters ''print(1)'')) = Pending) \<and>
   (\<exists>src' pre.
      p_code (sample_parameters ''print(1)'') = Some src' \<and>
      snd (execute sample_env (sample_parameters ''print(1)'')) =
        pre @ snd (logExecution sample_env src'
                     \<lparr>code = ''print(1)'', output_text = [], error = None,
                        execution_time = 38, status = Success\<rparr>))"
proof -
  note main = logging_failure_not_propagated
  let ?ps = "sample_parameters ''print(1)''"
  let ?rej = "sample_env\<lparr>create_outcome := Rejects ''Can't reach database server''\<rparr>"
  let ?hang = "sample_env\<lparr>upsert_outcome := NeverSettles\<rparr>"
  let ?r = "\<lparr>code = ''print(1)'', output_text = [], error = None, execution_time = 38,
             status = Success\<rparr>"
  let ?t = "\<lparr>success = True, data = ?r, error_message = None, executionTime = 50\<rparr>"
  have good: "?rej\<lparr>upsert_outcome := Resolves, create_outcome := Resolves\<rparr> = sample_env"
    "?hang\<lparr>upsert_outcome := Resolves, create_outcome := Resolves\<rparr> = sample_env"
    by (simp_all add: sample_env_def)
  have empty: "parseOutput [] = []" "parseError [] = None"
    by (simp_all add: parseOutput_def parseError_def OUTPUT_START_def ERROR_START_def trim_def)
  have safe: "\<not> containsUnsafeOperations ''print(1)''"
    by (simp add: containsUnsafeOperations_def unsafePatterns_def)
  have run: "fst (executePythonCode sample_env ''print(1)'' 30 True) = Returned ?r"
    by (simp add: executePythonCode_def try_block_def Let_def sample_env_def
        runPythonProcess_eq close_result_def empty)
  have settles: "logging_settles sample_env"
    by (simp add: logging_settles_def sample_env_def)
  from run obtain effs where
    run': "executePythonCode sample_env ''print(1)'' 30 True = (Returned ?r, effs)"
    by (cases "executePythonCode sample_env ''print(1)'' 30 True") simp
  have clock: "now_measure_end sample_env - now_measure_start sample_env = 50"
    by (simp add: sample_env_def)
  have ok: "fst (execute sample_env ?ps) = Returned ?t"
    using run' safe settles clock
    by (simp add: execute_eq sample_parameters_def)
  then have st: "returned_status (fst (execute sample_env ?ps)) = Some Success"
    by (simp add: returned_status_def)
  have a1: "logging_settles ?rej" by (simp add: logging_settles_def sample_env_def)
  have rj: "logging_rejection ?rej = Some ''Can't reach database server''"
    by (simp add: logging_rejection_def sample_env_def)
  from main[of ?rej ?ps "''print(1)''" ?r, THEN conjunct1] a1 have
    "fst (execute ?rej ?ps) =
       fst (execute (?rej\<lparr>upsert_outcome := Resolves, create_outcome := Resolves\<rparr>) ?ps) \<and>
     fst (logExecution ?rej ''print(1)'' ?r) = Returned () \<and>
     (case logging_rejection ?rej of
        Some message \<Rightarrow>
          last (snd (logExecution ?rej ''print(1)'' ?r)) =
            ConsoleError (''Failed to log code execution: '' @ message)
      | None \<Rightarrow>
          snd (logExecution ?rej ''print(1)'' ?r) =
            [UpsertUser,
             CreateCodeExecution ''print(1)'' (output_text ?r) (error ?r) (status ?r)
               (execution_time ?r)])"
    by (rule mp)
  then have a2: "fst (execute ?rej ?ps) = fst (execute sample_env ?ps)"
    and a3: "last (snd (logExecution ?rej ''print(1)'' ?r)) =
      ConsoleError ''Failed to log code execution: Can't reach database server''"
    unfolding good rj by simp_all
  have b1: "\<not> logging_settles ?hang" by (simp add: logging_settles_def)
  from main[of ?hang ?ps "''print(1)''" ?r, THEN conjunct2, THEN conjunct1] b1 have
    "fst (logExecution ?hang ''print(1)'' ?r) = Pending \<and>
     fst (execute ?hang ?ps) =
       (case fst (execute (?hang\<lparr>upsert_outcome := Resolves, create_outcome := Resolves\<rparr>) ?ps)
        of Returned t \<Rightarrow> Pending | other \<Rightarrow> other)"
    by (rule mp)
  then have b2: "fst (execute ?hang ?ps) = Pending"
    unfolding good ok by simp
  from main[of sample_env ?ps _ _ ?t, THEN conjunct2, THEN conjunct2] ok have
    c: "\<exists>src' pre. p_code ?ps = Some src' \<and>
      snd (execute sample_env ?ps) = pre @ snd (logExecution sample_env src' (data ?t))"
    by (rule mp)
  then have c': "\<exists>src' pre. p_code ?ps = Some src' \<and>
      snd (execute sample_env ?ps) = pre @ snd (logExecution sample_env src' ?r)"
    by simp
  from a1 a2 st a3 b1 b2 c' show ?thesis by (intro conjI)
qed

text \<open>
  The first database call never settles: the execution has succeeded, and \<^verbatim>\<open>execute\<close>
  never returns its result.
\<close>

theorem logging_hang_counterexample:
  "returned_status (fst (execute sample_env (sample_parameters ''print(1)''))) = Some Success \<and>
   fst (execute (sample_env\<lparr>upsert_outcome := NeverSettles\<rparr>) (sample_parameters ''print(1)'')) =
     Pending"
proof -
  have empty: "parseOutput [] = []" "parseError [] = None"
    by (simp_all add: parseOutput_def parseError_def OUTPUT_START_def ERROR_START_def trim_def)
  have safe: "\<not> containsUnsafeOperations ''print(1)''"
    by (simp add: containsUnsafeOperations_def unsafePatterns_def)
  have run: "fst (executePythonCode env ''print(1)'' 30 True) =
      Returned \<lparr>code = ''print(1)'', output_text = [], error = None, execution_time = 38,
                status = Success\<rparr>"
    if "env = sample_env \<or> env = sample_env\<lparr>upsert_outcome := NeverSettles\<rparr>" for env
    using that
    by (auto simp: executePythonCode_def try_block_def Let_def sample_env_def
        runPythonProcess_eq close_result_def empty)
  from run[of sample_env] obtain effs where
    r1: "executePythonCode sample_env ''print(1)'' 30 True =
      (Returned \<lparr>code = ''print(1)'', output_text = [], error = None, execution_time = 38,
                 status = Success\<rparr>, effs)"
    by (cases "executePythonCode sample_env ''print(1)'' 30 True") simp
  from run[of "sample_env\<lparr>upsert_outcome := NeverSettles\<rparr>"] obtain effs' where
    r2: "executePythonCode (sample_env\<lparr>upsert_outcome := NeverSettles\<rparr>) ''print(1)'' 30 True =
      (Returned \<lparr>code = ''print(1)'', output_text = [], error = None, execution_time = 38,
                 status = Success\<rparr>, effs')"
    by (cases "executePythonCode (sample_env\<lparr>upsert_outcome := NeverSettles\<rparr>)
        ''print(1)'' 30 True") simp
  have "logging_settles sample_env" by (simp add: logging_settles_def sample_env_def)
  with r1 safe have
    "returned_status (fst (execute sample_env (sample_parameters ''print(1)''))) = Some Success"
    by (simp add: execute_eq sample_parameters_def returned_status_def)
  moreover have "\<not> logging_settles (sample_env\<lparr>upsert_outcome := NeverSettles\<rparr>)"
    by (simp add: logging_settles_def)
  with r2 safe have
    "fst (execute (sample_env\<lparr>upsert_outcome := NeverSettles\<rparr>)
            (sample_parameters ''print(1)'')) = Pending"
    by (simp add: execute_eq sample_parameters_def)
  ultimately show ?thesis by (rule conjI)
qed

text \<open>
  Claim C4, amended. For every source text a part of which matches one of the twelve
  denylisted patterns, \<^verbatim>\<open>execute\<close> throws the error
  \<open>Code contains potentially unsafe operations\<close> instead of returning a result, and has
  no effect before that: no directory is made, no file written, no process spawned.
\<close>

theorem unsafe_source_rejected:
  assumes "p_code ps = Some (pre @ m @ post)"
    and "pattern \<in> set unsafePatterns" and "matches pattern m"
  shows "execute env ps = (Thrown ''Code contains potentially unsafe operations'', [])"
proof -
  from assms(2,3) have "containsUnsafeOperations (pre @ m @ post)"
    unfolding containsUnsafeOperations_iff by blast
  with assms(1) show ?thesis
    by (simp add: execute_def validateParameters_def defined_param_def Let_def)
qed

theorem unsafe_source_rejected_witness:
  "p_code (sample_parameters (''x = 1; '' @ ''import os'' @ ''; os.getcwd()'')) =
     Some (''x = 1; '' @ ''import os'' @ ''; os.getcwd()'') \<and>
   [Lit ''import'', SpacePlus, Lit ''os''] \<in> set unsafePatterns \<and>
   matches [Lit ''import'', SpacePlus, Lit ''os''] ''import os'' \<and>
   execute sample_env (sample_parameters (''x = 1; '' @ ''import os'' @ ''; os.getcwd()'')) =
     (Thrown ''Code contains potentially unsafe operations'', [])"
proof -
  let ?src = "''x = 1; '' @ ''import os'' @ ''; os.getcwd()''"
  have h1: "p_code (sample_parameters ?src) = Some ?src"
    by (simp add: sample_parameters_def)
  have h2: "[Lit ''import'', SpacePlus, Lit ''os''] \<in> set unsafePatterns"
    by (simp add: unsafePatterns_def)
  have "matches [Lit ''os''] (''os'' @ [])"
    by (intro matches_Lit matches_Nil)
  then have "matches [SpaceStar, Lit ''os''] ''os''"
    by (simp add: matches_Star_skip)
  then have "matches [SpacePlus, Lit ''os''] (CHR '' '' # ''os'')"
    by (intro matches_Plus) (simp_all add: is_space_def)
  then have "matches [Lit ''import'', SpacePlus, Lit ''os''] (''import'' @ CHR '' '' # ''os'')"
    by (rule matches_Lit)
  then have h3: "matches [Lit ''import'', SpacePlus, Lit ''os''] ''import os''"
    by simp
  from unsafe_source_rejected[OF h1 h2 h3, of sample_env] h1 h2 h3 show ?thesis
    by (intro conjI)
qed

text \<open>
  The call with the source \<open>import os\<close> returns no result, so none with status
  \<open>error\<close>: it throws.
\<close>

theorem unsafe_source_counterexample:
  "containsUnsafeOperations ''import os'' \<and>
   fst (execute sample_env (sample_parameters ''import os'')) =
     Thrown ''Code contains potentially unsafe operations'' \<and>
   returned_status (fst (execute sample_env (sample_parameters ''import os''))) \<noteq> Some Error"
  by (simp add: execute_def validateParameters_def defined_param_def Let_def
      sample_parameters_def containsUnsafeOperations_def unsafePatterns_def is_space_def
      returned_status_def)

text \<open>
  Claim C5, amended. For every request whose source text is missing (absent or
  \<^verbatim>\<open>undefined\<close>), \<^verbatim>\<open>execute\<close> throws \<open>Missing required parameters: code\<close> and has no
  effect before that: nothing is spawned or written. (An empty source text is not
  missing.)
\<close>

theorem missing_source_rejected:
  assumes "p_code ps = None"
  shows "execute env ps = (Thrown ''Missing required parameters: code'', [])"
  using assms
  by (simp add: execute_def validateParameters_def defined_param_def Let_def)

theorem missing_source_rejected_witness:
  "p_code \<lparr>p_code = None, p_timeout = Some 5, p_capture_output = None\<rparr> = None \<and>
   execute sample_env \<lparr>p_code = None, p_timeout = Some 5, p_capture_output = None\<rparr> =
     (Thrown ''Missing required parameters: code'', [])"
proof -
  have h: "p_code \<lparr>p_code = None, p_timeout = Some 5, p_capture_output = None\<rparr> = None"
    by simp
  from missing_source_rejected[OF h, of sample_env] h show ?thesis by simp
qed

text \<open>
  The empty source text passes validation and the pre-filter; the directory is made, the
  script written and the interpreter spawned, and the call returns a successful result.
\<close>

theorem empty_source_counterexample:
  "p_code (sample_parameters []) = Some [] \<and>
   returned_status (fst (execute sample_env (sample_parameters []))) = Some Success \<and>
   take 3 (snd (execute sample_env (sample_parameters []))) =
     [SpawnMkdir tempDir,
      WriteFile (tempFile 1700000000000) (wrapCodeWithSafety []),
      SpawnPython (tempFile 1700000000000)]"
proof -
  have e: "executePythonCode sample_env [] 30 True =
      (Returned \<lparr>code = [], output_text = [], error = None, execution_time = 38,
                 status = Success\<rparr>,
       [SpawnMkdir tempDir,
        WriteFile (tempFile 1700000000000) (wrapCodeWithSafety []),
        SpawnPython (tempFile 1700000000000),
        Unlink (tempFile 1700000000000)])"
    by (simp add: executePythonCode_def try_block_def Let_def sample_env_def
        runPythonProcess_eq close_result_def parseOutput_def parseError_def OUTPUT_START_def
        ERROR_START_def trim_def finally_block_def)
  have u: "\<not> containsUnsafeOperations []"
    by (simp add: containsUnsafeOperations_def unsafePatterns_def)
  have "logging_settles sample_env" by (simp add: logging_settles_def sample_env_def)
  then have l: "fst (logExecution sample_env [] r) = Returned ()" for r
    by (rule logExecution_settled)
  obtain effs' where l': "logExecution sample_env []
      \<lparr>code = [], output_text = [], error = None, execution_time = 38, status = Success\<rparr> =
      (Returned (), effs')"
    using l by (metis prod.collapse)
  show ?thesis
    using e u l'
    by (simp add: execute_def validateParameters_def defined_param_def Let_def
        sample_parameters_def returned_status_def)
qed

subsection \<open>The wrapped script\<close>

lemma py_print_redirected:
  "redirected st \<Longrightarrow>
     redirected (py_print s st) \<and> real_stdout (py_print s st) = real_stdout st \<and>
     real_stderr (py_print s st) = real_stderr st"
  by (simp add: py_print_def)

lemma exec_user_redirected:
  "redirected st \<Longrightarrow>
     redirected (fst (exec_user user st)) \<and>
     real_stdout (fst (exec_user user st)) = real_stdout st \<and>
     real_stderr (fst (exec_user user st)) = real_stderr st"
proof (induction user st rule: exec_user.induct)
  case (1 st)
  then show ?case by simp
next
  case (2 s rest st)
  then show ?case by (simp add: py_print_redirected)
next
  case (3 message trace rest st)
  then show ?case by simp
qed

text \<open>
  Whatever the user code prints, and whether or not it raises, the wrapped script writes
  nothing to its real standard output: all its \<^verbatim>\<open>print\<close> calls, those of the sentinels
  included, run while \<^verbatim>\<open>sys.stdout\<close> is still the buffer.
\<close>

lemma wrapped_script_stdout_empty: "real_stdout (run_wrapped user) = []"
proof -
  let ?st1 = "py_init\<lparr>redirected := True\<rparr>"
  obtain st2 raised where ex: "exec_user user ?st1 = (st2, raised)"
    by (cases "exec_user user ?st1")
  have "redirected ?st1" by simp
  from exec_user_redirected[OF this, of user] ex have
    st2: "redirected st2" "real_stdout st2 = []"
    by (simp_all add: py_init_def)
  show ?thesis
  proof (cases raised)
    case None
    with ex st2 show ?thesis
      by (simp add: run_wrapped_def Let_def py_print_redirected)
  next
    case (Some a)
    obtain message trace where "a = (message, trace)" by (cases a)
    with Some ex st2 show ?thesis
      by (simp add: run_wrapped_def Let_def py_print_redirected)
  qed
qed

text \<open>
  Claim C1 fails on the code. The wrapped script never writes to its real standard
  output, so the runner captures no output whatever the user code prints; for the script
  that prints \<open>hello\<close> and exits with code zero the process writes nothing at all, and the
  result has status \<open>success\<close> and no error, but the empty output instead of
  \<open>hello\<close>. (The extraction routine itself does recover \<open>hello\<close> from the text the
  wrapper was meant to emit.)
\<close>

theorem hello_output_lost:
  \<open>real_stdout (run_wrapped user) = [] \<and>
   wrapped_script_events [Print ''hello''] = [Close (Some 0)] \<and>
   fst (executePythonCode (sample_env\<lparr>proc_events := wrapped_script_events [Print ''hello'']\<rparr>)
          ''print("hello")'' 30 True) =
     Returned \<lparr>code = ''print("hello")'', output_text = [], error = None,
               execution_time = 38, status = Success\<rparr> \<and>
   parseOutput
     (OUTPUT_START @ [CHR 0x0A] @ ''hello'' @ [CHR 0x0A, CHR 0x0A] @ OUTPUT_END @ [CHR 0x0A]) =
     ''hello''\<close>
proof -
  have ev: "wrapped_script_events [Print ''hello''] = [Close (Some 0)]"
    by (simp add: wrapped_script_events_def Let_def run_wrapped_def py_init_def py_print_def)
  have \<open>fst (executePythonCode (sample_env\<lparr>proc_events := [Close (Some 0)]\<rparr>)
          ''print("hello")'' 30 True) =
     Returned \<lparr>code = ''print("hello")'', output_text = [], error = None,
               execution_time = 38, status = Success\<rparr>\<close>
    by (simp add: executePythonCode_def try_block_def Let_def sample_env_def
        runPythonProcess_eq close_result_def parseOutput_def parseError_def OUTPUT_START_def
        ERROR_START_def trim_def)
  moreover have "parseOutput
     (OUTPUT_START @ [CHR 0x0A] @ ''hello'' @ [CHR 0x0A, CHR 0x0A] @ OUTPUT_END @ [CHR 0x0A]) =
     ''hello''"
    by (simp add: parseOutput_def OUTPUT_START_def OUTPUT_END_def substring_def trim_def
        is_space_def)
  ultimately show ?thesis
    using wrapped_script_stdout_empty[of user] ev by simp
qed

text \<open>
  Claim C9 fails on the code. The name of the temporary file is a function of the clock
  reading alone: two calls that read the same millisecond, whatever their sources, write
  their scripts to the same path, and the second write replaces the first script.
\<close>

theorem same_millisecond_same_file:
  assumes "now_name envA = now_name envB"
    and "mkdir_exit envA = MkdirClose (Some 0)" and "mkdir_exit envB = MkdirClose (Some 0)"
  shows "WriteFile (tempFile (now_name envA)) (wrapCodeWithSafety srcA)
           \<in> set (snd (executePythonCode envA srcA timeoutA capA)) \<and>
         WriteFile (tempFile (now_name envA)) (wrapCodeWithSafety srcB)
           \<in> set (snd (executePythonCode envB srcB timeoutB capB)) \<and>
         foldl apply_effect files
           [WriteFile (tempFile (now_name envA)) (wrapCodeWithSafety srcA),
            WriteFile (tempFile (now_name envB)) (wrapCodeWithSafety srcB)]
           (tempFile (now_name envA)) = Some (wrapCodeWithSafety srcB)"
proof -
  have w: "WriteFile (tempFile (now_name env)) (wrapCodeWithSafety src)
      \<in> set (snd (executePythonCode env src timeout cap))"
    if "mkdir_exit env = MkdirClose (Some 0)" for env src timeout cap
    using that
    by (auto simp: executePythonCode_def try_block_def Let_def
        split: option.splits outcome.splits)
  from w[OF assms(2), of srcA timeoutA capA] w[OF assms(3), of srcB timeoutB capB] assms(1)
  show ?thesis by simp
qed

theorem same_millisecond_same_file_witness:
  "now_name sample_env = now_name (sample_env\<lparr>now_start := 1700000000001\<rparr>) \<and>
   mkdir_exit sample_env = MkdirClose (Some 0) \<and>
   mkdir_exit (sample_env\<lparr>now_start := 1700000000001\<rparr>) = MkdirClose (Some 0) \<and>
   tempFile (now_name sample_env) = ''/tmp/avilink-python/script_1700000000000.py'' \<and>
   WriteFile ''/tmp/avilink-python/script_1700000000000.py'' (wrapCodeWithSafety ''print(1)'')
     \<in> set (snd (executePythonCode sample_env ''print(1)'' 30 True)) \<and>
   WriteFile ''/tmp/avilink-python/script_1700000000000.py'' (wrapCodeWithSafety ''print(2)'')
     \<in> set (snd (executePythonCode (sample_env\<lparr>now_start := 1700000000001\<rparr>)
                    ''print(2)'' 30 True)) \<and>
   wrapCodeWithSafety ''print(1)'' \<noteq> wrapCodeWithSafety ''print(2)''"
proof -
  let ?envB = "sample_env\<lparr>now_start := 1700000000001\<rparr>"
  have h1: "now_name sample_env = now_name ?envB" by simp
  have h2: "mkdir_exit sample_env = MkdirClose (Some 0)" by (simp add: sample_env_def)
  have h3: "mkdir_exit ?envB = MkdirClose (Some 0)" by (simp add: sample_env_def)
  have p: "tempFile (now_name sample_env) = ''/tmp/avilink-python/script_1700000000000.py''"
    by (simp add: sample_env_def tempFile_def tempDir_def show_int_def digits.simps
        digit_char_def)
  have d: "wrapCodeWithSafety ''print(1)'' \<noteq> wrapCodeWithSafety ''print(2)''"
    by (simp add: wrapCodeWithSafety_def)
  from same_millisecond_same_file[OF h1 h2 h3, of "''print(1)''" 30 True "''print(2)''" 30 True]
  have "WriteFile (tempFile (now_name sample_env)) (wrapCodeWithSafety ''print(1)'')
           \<in> set (snd (executePythonCode sample_env ''print(1)'' 30 True)) \<and>
         WriteFile (tempFile (now_name sample_env)) (wrapCodeWithSafety ''print(2)'')
           \<in> set (snd (executePythonCode ?envB ''print(2)'' 30 True))"
    by simp
  with h1 h2 h3 p d show ?thesis by simp
qed

end
